theory Spec2Isabelle
  imports Complex_Main "HOL-Library.AList"
begin

section \<open>The streaming completion engine of sgpt/handlers/handler.py\<close>

text \<open>
  The development follows \<^verbatim>\<open>sgpt/handlers/handler.py\<close> and lines 263-272 of
  \<^verbatim>\<open>sgpt/app.py\<close>. A generator is modelled by what a consumer that drains it
  observes: the list of yielded fragments, how the generator ended, and the state it
  left behind. Exceptions are values of the type \<open>exn\<close>.
\<close>

subsection \<open>Exceptions and outcomes\<close>

datatype exn =
    KeyboardInterrupt
  | JSONDecodeError string  \<comment> \<open>the attribute \<open>doc\<close>: the document that was parsed\<close>
  | AttributeError
  | TypeError
  | ValueError
  | Exn string  \<comment> \<open>any other exception, raised by a collaborator\<close>

datatype outcome =
    Returned  \<comment> \<open>the generator is exhausted\<close>
  | Raised exn  \<comment> \<open>an exception left the generator\<close>
  | OutOfFuel  \<comment> \<open>the recursion did not finish within the fuel: no result\<close>

subsection \<open>Messages, requests and stream chunks\<close>

record tool_call =
  tc_id :: string
  tc_type :: string
  tc_function_name :: string
  tc_function_arguments :: string

text \<open>A message dict; \<open>None\<close> in \<open>tool_calls\<close> and \<open>tool_call_id\<close> is an absent key.\<close>

record message =
  role :: string
  content :: "string option"
  tool_calls :: "tool_call list option"
  tool_call_id :: "string option"

type_synonym schema = "(string \<times> string) list"

datatype kwval = KInt int | KStr string | KNone | KBool bool | KTools "schema list"

text \<open>A keyword dictionary, in insertion order.\<close>

type_synonym kwargs = "(string \<times> kwval) list"

datatype capability =
    LiteLLM  \<comment> \<open>\<^verbatim>\<open>litellm.completion\<close>\<close>
  | OpenAIClient kwargs  \<comment> \<open>\<^verbatim>\<open>OpenAI(**provider_kwargs).chat.completions.create\<close>\<close>

record request =
  req_model :: string
  req_temperature :: real
  req_top_p :: real
  req_messages :: "message list"
  req_stream :: bool
  req_kwargs :: kwargs

text \<open>
  A field of a delta: a dict key (LiteLLM) or an attribute (OpenAI) that is absent,
  holds \<^verbatim>\<open>None\<close>, or holds a value.
\<close>

datatype 'a field = Missing | Null | Val 'a

record function_delta =
  fn_name :: "string option"
  fn_arguments :: "string field"

record tool_call_delta =
  tcd_id :: "string option"
  tcd_function :: "function_delta field"

record delta =
  delta_content :: "string option"
  delta_tool_calls :: "tool_call_delta list option"

record choice =
  choice_delta :: delta
  finish_reason :: "string option"

text \<open>A chunk is its list \<^verbatim>\<open>chunk.choices\<close>.\<close>

type_synonym chunk = "choice list"

text \<open>Iterating the response gives a chunk or raises.\<close>

datatype item = Chunk chunk | Fault exn

subsection \<open>The environment: configuration and collaborators\<close>

text \<open>
  The values of \<^verbatim>\<open>DefaultRoles\<close> (\<^verbatim>\<open>sgpt/role.py\<close>) are not among the
  sources and are parameters, as are the configuration, the standard library's
  \<^verbatim>\<open>json.loads\<close>, \<^verbatim>\<open>dict.items\<close>, \<^verbatim>\<open>str\<close> and \<^verbatim>\<open>int\<close>, the function registry and
  the provider. \<open>'v\<close> is the type of parsed JSON values.
\<close>

record 'v env =
  cfg :: "string \<Rightarrow> string"
  use_litellm :: bool  \<comment> \<open>\<^verbatim>\<open>cfg.get("USE_LITELLM") == "true"\<close>, read at import\<close>
  role_name :: string  \<comment> \<open>\<^verbatim>\<open>self.role.name\<close>\<close>
  SHELL :: string
  CODE :: string
  DESCRIBE_SHELL :: string
  py_int :: "string \<Rightarrow> int option"  \<comment> \<open>\<open>None\<close>: ValueError\<close>
  import_litellm :: "exn option"  \<comment> \<open>what \<^verbatim>\<open>import litellm\<close> raises, if anything\<close>
  new_client :: "kwargs \<Rightarrow> exn option"  \<comment> \<open>what \<^verbatim>\<open>OpenAI(**kwargs)\<close> raises, if anything\<close>
  provider :: "nat \<Rightarrow> capability \<Rightarrow> request \<Rightarrow> exn + item list"
    \<comment> \<open>the response to the n-th provider call of the process\<close>
  json_loads :: "string \<Rightarrow> 'v option"  \<comment> \<open>\<open>None\<close>: JSONDecodeError\<close>
  dict_items :: "'v \<Rightarrow> (string \<times> 'v) list option"  \<comment> \<open>\<open>None\<close>: not a dict\<close>
  py_str :: "'v \<Rightarrow> string"
  get_function :: "string \<Rightarrow> exn + ((string \<times> 'v) list \<Rightarrow> exn + string)"
  cache_entry :: "string \<Rightarrow> real \<Rightarrow> real \<Rightarrow> message list \<Rightarrow> schema list option \<Rightarrow> string list option"
    \<comment> \<open>the cache entry stored for a request, if any\<close>

subsection \<open>The state\<close>

text \<open>
  \<open>messages\<close> is the in-flight message list, a Python list shared by reference between
  the caller, \<^verbatim>\<open>handle_function_call\<close> and every recursive call. \<open>completion\<close> and
  \<open>completion_kwargs\<close> are the module's globals. The other fields record what the
  collaborators saw: the provider invocations, the tool functions invoked, the responses
  closed, and the \<^verbatim>\<open>caching\<close> argument of each call of the decorated
  \<^verbatim>\<open>get_completion\<close>.
\<close>

record 'v state =
  messages :: "message list"
  completion :: "capability option"
  completion_kwargs :: kwargs
  requests :: "(capability \<times> request) list"
  invocations :: "(string \<times> (string \<times> 'v) list) list"
  closed_responses :: "nat list"
  calls :: "bool list"

type_synonym 'v result = "string list \<times> outcome \<times> 'v state"

subsection \<open>Python idioms\<close>

text \<open>\<^verbatim>\<open>x or y\<close> on an optional string: \<^verbatim>\<open>None\<close> and the empty string are falsy.\<close>

definition py_or :: "string option \<Rightarrow> string \<Rightarrow> string" where
  "py_or x y = (case x of None \<Rightarrow> y | Some v \<Rightarrow> if v = [] then y else v)"

text \<open>\<^verbatim>\<open>sep.join(xs)\<close>\<close>

fun join :: "string \<Rightarrow> string list \<Rightarrow> string" where
  "join sep [] = []"
| "join sep [x] = x"
| "join sep (x # y # ys) = x @ sep @ join sep (y # ys)"

text \<open>Truthiness of \<^verbatim>\<open>Optional[List]\<close>: \<^verbatim>\<open>None\<close> and the empty list are falsy.\<close>

definition truthy :: "'a list option \<Rightarrow> bool" where
  "truthy x = (case x of None \<Rightarrow> False | Some xs \<Rightarrow> xs \<noteq> [])"

subsection \<open>Sequencing generators\<close>

definition yield_then :: "string \<Rightarrow> 'v result \<Rightarrow> 'v result" where
  "yield_then x r = (case r of (out, oc, s) \<Rightarrow> (x # out, oc, s))"

text \<open>\<^verbatim>\<open>yield from g; k\<close>: the rest runs only if \<open>g\<close> returned.\<close>

definition then_gen :: "'v result \<Rightarrow> ('v state \<Rightarrow> 'v result) \<Rightarrow> 'v result" where
  "then_gen r k =
     (case r of (out, oc, s) \<Rightarrow>
        (case oc of
           Returned \<Rightarrow> (case k s of (out', oc', s') \<Rightarrow> (out @ out', oc', s'))
         | Raised e \<Rightarrow> (out, Raised e, s)
         | OutOfFuel \<Rightarrow> (out, OutOfFuel, s)))"

subsection \<open>\<^verbatim>\<open>get_provider_completion\<close> (handler.py, lines 16-43)\<close>

definition get_provider_completion ::
  "'v env \<Rightarrow> 'v state \<Rightarrow> exn + ((capability \<times> kwargs) \<times> 'v state)" where
  "get_provider_completion env s =
     (case completion s of
        Some c \<Rightarrow> Inr ((c, completion_kwargs s), s)
      | None \<Rightarrow>
          (let base_url = cfg env ''API_BASE_URL'' in
           case py_int env (cfg env ''REQUEST_TIMEOUT'') of
             None \<Rightarrow> Inl ValueError
           | Some timeout \<Rightarrow>
               (let provider_kwargs =
                      [(''timeout'', KInt timeout),
                       (''api_key'', KStr (cfg env ''OPENAI_API_KEY'')),
                       (''base_url'', if base_url = ''default'' then KNone else KStr base_url)]
                in if use_litellm env then
                     (case import_litellm env of
                        Some e \<Rightarrow> Inl e
                      | None \<Rightarrow>
                          (let kw = AList.delete ''api_key'' provider_kwargs
                           in Inr ((LiteLLM, kw),
                                   s\<lparr>completion := Some LiteLLM, completion_kwargs := kw\<rparr>)))
                   else
                     (case new_client env provider_kwargs of
                        Some e \<Rightarrow> Inl e
                      | None \<Rightarrow>
                          Inr ((OpenAIClient provider_kwargs, []),
                               s\<lparr>completion := Some (OpenAIClient provider_kwargs),
                                 completion_kwargs := []\<rparr>)))))"

subsection \<open>\<^verbatim>\<open>Handler.handle_function_call\<close> (handler.py, lines 70-108)\<close>

definition newline :: string where
  "newline = [CHR 0x0A]"

definition assistant_message :: "string \<Rightarrow> string \<Rightarrow> string \<Rightarrow> message" where
  "assistant_message tool_call_id' name arguments =
     \<lparr>role = ''assistant'', content = None,
      tool_calls = Some [\<lparr>tc_id = tool_call_id', tc_type = ''function'',
                          tc_function_name = name, tc_function_arguments = arguments\<rparr>],
      tool_call_id = None\<rparr>"

definition tool_message :: "string \<Rightarrow> string \<Rightarrow> message" where
  "tool_message result tool_call_id' =
     \<lparr>role = ''tool'', content = Some result, tool_calls = None,
      tool_call_id = Some tool_call_id'\<rparr>"

text \<open>\<^verbatim>\<open>", ".join(f'{k}="{v}"' for k, v in dict_args.items())\<close>\<close>

definition joined_args :: "'v env \<Rightarrow> (string \<times> 'v) list \<Rightarrow> string" where
  "joined_args env kvs =
     join '', '' (map (\<lambda>(k, v). k @ ''='' @ [CHR 0x22] @ py_str env v @ [CHR 0x22]) kvs)"

text \<open>The trace line \<^verbatim>\<open>f"> @FunctionCall `{name}({joined_args})` \n\n"\<close>\<close>

definition trace_line :: "string \<Rightarrow> string \<Rightarrow> string" where
  "trace_line name joined =
     ''> @FunctionCall '' @ [CHR 0x60] @ name @ ''('' @ joined @ '')'' @ [CHR 0x60] @ '' ''
       @ newline @ newline"

text \<open>The block \<^verbatim>\<open>f"```text\n{result}\n```\n"\<close>\<close>

definition output_block :: "string \<Rightarrow> string" where
  "output_block result =
     [CHR 0x60, CHR 0x60, CHR 0x60] @ ''text'' @ newline @ result @ newline
       @ [CHR 0x60, CHR 0x60, CHR 0x60] @ newline"

definition handle_function_call ::
  "'v env \<Rightarrow> string \<Rightarrow> string \<Rightarrow> string \<Rightarrow> 'v state \<Rightarrow> 'v result" where
  "handle_function_call env tool_call_id' name arguments s =
     (let s1 = s\<lparr>messages := messages s @ [assistant_message tool_call_id' name arguments]\<rparr>;
          out1 = (if messages s1 \<noteq> [] \<and> role (last (messages s1)) = ''assistant''
                  then [newline] else [])
      in case json_loads env arguments of
           None \<Rightarrow> (out1, Raised (JSONDecodeError arguments), s1)
         | Some dict_args \<Rightarrow>
             (case dict_items env dict_args of
                None \<Rightarrow> (out1, Raised AttributeError, s1)
              | Some kvs \<Rightarrow>
                  (let out2 = out1 @ [trace_line name (joined_args env kvs)]
                   in case get_function env name of
                        Inl e \<Rightarrow> (out2, Raised e, s1)
                      | Inr f \<Rightarrow>
                          (let s2 = s1\<lparr>invocations := invocations s1 @ [(name, kvs)]\<rparr>
                           in case f kvs of
                                Inl e \<Rightarrow> (out2, Raised e, s2)
                              | Inr result \<Rightarrow>
                                  (out2 @ (if cfg env ''SHOW_FUNCTIONS_OUTPUT'' = ''true''
                                           then [output_block result] else []),
                                   Returned,
                                   s2\<lparr>messages := messages s2
                                        @ [tool_message result tool_call_id']\<rparr>)))))"

subsection \<open>The decorator \<^verbatim>\<open>cache\<close>\<close>

text \<open>
  Modelled from the spec: the class \<^verbatim>\<open>Cache\<close> of \<^verbatim>\<open>sgpt/cache.py\<close>, whose instance
  decorates \<^verbatim>\<open>get_completion\<close> and consumes its \<^verbatim>\<open>caching\<close> argument, is not among the
  sources. Section 4.1: if caching is disabled, "bypass entirely: fragments are produced
  live, not recorded, not read from store"; if an entry exists, "the stored fragment
  sequence is replayed verbatim, in original order, with no network call and no
  re-execution of any tool"; if none exists, the producer is invoked and "every fragment
  it yields is passed through unchanged". Writing and evicting entries is not modelled.
\<close>

definition cache ::
  "'v env \<Rightarrow> bool \<Rightarrow> string \<Rightarrow> real \<Rightarrow> real \<Rightarrow> schema list option
     \<Rightarrow> ('v state \<Rightarrow> 'v result) \<Rightarrow> 'v state \<Rightarrow> 'v result" where
  "cache env caching model temperature top_p functions producer s =
     (let s' = s\<lparr>calls := calls s @ [caching]\<rparr>
      in if caching then
           (case cache_entry env model temperature top_p (messages s') functions of
              Some fragments \<Rightarrow> (fragments, Returned, s')
            | None \<Rightarrow> producer s')
         else producer s')"

subsection \<open>\<^verbatim>\<open>Handler.get_completion\<close> (handler.py, lines 110-181)\<close>

text \<open>The body of \<^verbatim>\<open>for tool_call in tool_calls\<close>, lines 153-164.\<close>

fun accumulate_one ::
  "bool \<Rightarrow> tool_call_delta \<Rightarrow> string \<times> string \<times> string \<Rightarrow> exn + (string \<times> string \<times> string)" where
  "accumulate_one litellm tc (tool_call_id', name, arguments) =
     (if litellm then
        (case tcd_function tc of
           Missing \<Rightarrow> Inr (py_or (tcd_id tc) tool_call_id', name, arguments)
         | Null \<Rightarrow> Inl AttributeError
         | Val f \<Rightarrow>
             (case fn_arguments f of
                Missing \<Rightarrow> Inr (py_or (tcd_id tc) tool_call_id', py_or (fn_name f) name, arguments)
              | Null \<Rightarrow> Inl TypeError
              | Val a \<Rightarrow>
                  Inr (py_or (tcd_id tc) tool_call_id', py_or (fn_name f) name, arguments @ a)))
      else
        (case tcd_function tc of
           Val f \<Rightarrow>
             Inr (py_or (tcd_id tc) tool_call_id', py_or (fn_name f) name,
                  arguments @ (case fn_arguments f of Val a \<Rightarrow> a | _ \<Rightarrow> []))
         | _ \<Rightarrow> Inl AttributeError))"

fun accumulate ::
  "bool \<Rightarrow> tool_call_delta list \<Rightarrow> string \<times> string \<times> string \<Rightarrow> exn + (string \<times> string \<times> string)" where
  "accumulate litellm [] acc = Inr acc"
| "accumulate litellm (tc # tcs) acc =
     (case accumulate_one litellm tc acc of
        Inl e \<Rightarrow> Inl e
      | Inr acc' \<Rightarrow> accumulate litellm tcs acc')"

text \<open>
  \<^verbatim>\<open>if tool_calls:\<close> skips \<^verbatim>\<open>None\<close> and the empty list, on which the loop does
  nothing anyway.
\<close>

definition delta_calls :: "delta \<Rightarrow> tool_call_delta list" where
  "delta_calls d = (case delta_tool_calls d of None \<Rightarrow> [] | Some tcs \<Rightarrow> tcs)"

text \<open>
  The loop \<^verbatim>\<open>for chunk in response\<close>, lines 143-179, without the enclosing
  \<^verbatim>\<open>try\<close>. \<open>recurse\<close> is the call \<^verbatim>\<open>self.get_completion(..., caching=False)\<close> of
  lines 169-176.
\<close>

fun drain ::
  "'v env \<Rightarrow> ('v state \<Rightarrow> 'v result) \<Rightarrow> item list \<Rightarrow> string \<times> string \<times> string
     \<Rightarrow> 'v state \<Rightarrow> 'v result" where
  "drain env recurse [] acc s = ([], Returned, s)"
| "drain env recurse (Fault e # rest) acc s = ([], Raised e, s)"
| "drain env recurse (Chunk choices # rest) acc s =
     (case choices of
        [] \<Rightarrow> drain env recurse rest acc s
      | c # _ \<Rightarrow>
          (case accumulate (use_litellm env) (delta_calls (choice_delta c)) acc of
             Inl e \<Rightarrow> ([], Raised e, s)
           | Inr (tool_call_id', name, arguments) \<Rightarrow>
               if finish_reason c = Some ''tool_calls'' then
                 then_gen (handle_function_call env tool_call_id' name arguments s) recurse
               else
                 yield_then (py_or (delta_content (choice_delta c)) [])
                   (drain env recurse rest (tool_call_id', name, arguments) s)))"

text \<open>\<^verbatim>\<open>except KeyboardInterrupt: response.close()\<close>, lines 180-181.\<close>

definition except_KeyboardInterrupt :: "nat \<Rightarrow> 'v result \<Rightarrow> 'v result" where
  "except_KeyboardInterrupt response r =
     (case r of (out, oc, s) \<Rightarrow>
        if oc = Raised KeyboardInterrupt
        then (out, Returned, s\<lparr>closed_responses := closed_responses s @ [response]\<rparr>)
        else (out, oc, s))"

text \<open>Lines 120-124: the reserved roles lose their tool schemas.\<close>

definition resolve_functions :: "'v env \<Rightarrow> schema list option \<Rightarrow> schema list option" where
  "resolve_functions env functions =
     (let is_shell_role = (role_name env = SHELL env);
          is_code_role = (role_name env = CODE env);
          is_dsc_shell_role = (role_name env = DESCRIBE_SHELL env)
      in if is_shell_role \<or> is_code_role \<or> is_dsc_shell_role then None else functions)"

text \<open>Lines 127-131.\<close>

definition request_kwargs :: "kwargs \<Rightarrow> schema list option \<Rightarrow> kwargs" where
  "request_kwargs provider_kwargs functions =
     (if truthy functions then
        AList.update ''parallel_tool_calls'' (KBool False)
          (AList.update ''tools'' (KTools (the functions))
             (AList.update ''tool_choice'' (KStr ''auto'') provider_kwargs))
      else provider_kwargs)"

text \<open>
  The undecorated generator. \<open>recurse\<close> takes the tool schemas handed to the recursive
  call, which are the resolved ones.
\<close>

definition get_completion_body ::
  "'v env \<Rightarrow> (schema list option \<Rightarrow> 'v state \<Rightarrow> 'v result) \<Rightarrow> string \<Rightarrow> real \<Rightarrow> real
     \<Rightarrow> schema list option \<Rightarrow> 'v state \<Rightarrow> 'v result" where
  "get_completion_body env recurse model temperature top_p functions s =
     (let functions' = resolve_functions env functions
      in case get_provider_completion env s of
           Inl e \<Rightarrow> ([], Raised e, s)
         | Inr ((completion_func, provider_kwargs), s1) \<Rightarrow>
             (let req = \<lparr>req_model = model, req_temperature = temperature, req_top_p = top_p,
                         req_messages = messages s1, req_stream = True,
                         req_kwargs = request_kwargs provider_kwargs functions'\<rparr>;
                  response = length (requests s1);
                  s2 = s1\<lparr>requests := requests s1 @ [(completion_func, req)]\<rparr>
              in case provider env response completion_func req of
                   Inl e \<Rightarrow> ([], Raised e, s2)
                 | Inr stream \<Rightarrow>
                     except_KeyboardInterrupt response
                       (drain env (recurse functions') stream ([], [], []) s2)))"

text \<open>
  The decorated method \<^verbatim>\<open>self.get_completion(model, temperature, top_p, messages,
  functions, caching)\<close>; the fuel bounds the depth of the recursion of lines 169-176.
\<close>

primrec get_completion ::
  "nat \<Rightarrow> 'v env \<Rightarrow> bool \<Rightarrow> string \<Rightarrow> real \<Rightarrow> real \<Rightarrow> schema list option
     \<Rightarrow> 'v state \<Rightarrow> 'v result" where
  "get_completion 0 env caching model temperature top_p functions s = ([], OutOfFuel, s)"
| "get_completion (Suc n) env caching model temperature top_p functions s =
     cache env caching model temperature top_p functions
       (get_completion_body env (get_completion n env False model temperature top_p)
          model temperature top_p functions) s"

subsection \<open>The tool schemas chosen by \<^verbatim>\<open>main\<close> (app.py, lines 263-272)\<close>

definition role_supports_functions :: "'v env \<Rightarrow> bool" where
  "role_supports_functions env =
     (role_name env \<notin> set [SHELL env, CODE env, DESCRIBE_SHELL env])"

text \<open>\<open>get_openai_schemas\<close> is the list the function registry returns.\<close>

definition function_schemas :: "'v env \<Rightarrow> bool \<Rightarrow> schema list \<Rightarrow> schema list option" where
  "function_schemas env use_functions get_openai_schemas =
     (if use_functions \<and> role_supports_functions env
      then (if get_openai_schemas \<noteq> [] then Some get_openai_schemas else None)
      else None)"

subsection \<open>Notions used in the statements\<close>

text \<open>A tool-call delta on which lines 156-164 do not raise.\<close>

fun delta_ok :: "bool \<Rightarrow> tool_call_delta \<Rightarrow> bool" where
  "delta_ok litellm tc =
     (if litellm then
        (case tcd_function tc of Missing \<Rightarrow> True | Null \<Rightarrow> False | Val f \<Rightarrow> fn_arguments f \<noteq> Null)
      else (case tcd_function tc of Val f \<Rightarrow> True | _ \<Rightarrow> False))"

text \<open>The name and the arguments fragment a delta carries, if any.\<close>

definition delta_name :: "tool_call_delta \<Rightarrow> string option" where
  "delta_name tc = (case tcd_function tc of Val f \<Rightarrow> fn_name f | _ \<Rightarrow> None)"

definition delta_fragment :: "tool_call_delta \<Rightarrow> string" where
  "delta_fragment tc =
     (case tcd_function tc of
        Val f \<Rightarrow> (case fn_arguments f of Val a \<Rightarrow> a | _ \<Rightarrow> [])
      | _ \<Rightarrow> [])"

text \<open>The last non-empty value of a sequence of optional strings, or a default.\<close>

definition nonempty :: "string option list \<Rightarrow> string list" where
  "nonempty xs = [v. Some v \<leftarrow> xs, v \<noteq> []]"

definition last_nonempty :: "string option list \<Rightarrow> string \<Rightarrow> string" where
  "last_nonempty xs d = (if nonempty xs = [] then d else last (nonempty xs))"

text \<open>
  What one item of the stream contributes: the tool-call deltas and the content of the
  first choice of its chunk.
\<close>

fun item_calls :: "item \<Rightarrow> tool_call_delta list" where
  "item_calls (Chunk (c # cs)) = delta_calls (choice_delta c)"
| "item_calls (Chunk []) = []"
| "item_calls (Fault e) = []"

fun item_fragments :: "item \<Rightarrow> string list" where
  "item_fragments (Chunk (c # cs)) = [py_or (delta_content (choice_delta c)) []]"
| "item_fragments (Chunk []) = []"
| "item_fragments (Fault e) = []"

text \<open>
  A chunk that neither raises nor finishes with \<^verbatim>\<open>tool_calls\<close>; the loop goes on after it.
\<close>

fun quiet :: "bool \<Rightarrow> item \<Rightarrow> bool" where
  "quiet litellm (Chunk (c # cs)) =
     (list_all (delta_ok litellm) (delta_calls (choice_delta c))
      \<and> finish_reason c \<noteq> Some ''tool_calls'')"
| "quiet litellm (Chunk []) = True"
| "quiet litellm (Fault e) = False"

definition stream_calls :: "item list \<Rightarrow> tool_call_delta list" where
  "stream_calls items = concat (map item_calls items)"

definition stream_fragments :: "item list \<Rightarrow> string list" where
  "stream_fragments items = concat (map item_fragments items)"

text \<open>The accumulators after a sequence of deltas, in closed form.\<close>

fun accumulated ::
  "tool_call_delta list \<Rightarrow> string \<times> string \<times> string \<Rightarrow> string \<times> string \<times> string" where
  "accumulated tcs (i, n, a) =
     (last_nonempty (map tcd_id tcs) i, last_nonempty (map delta_name tcs) n,
      a @ concat (map delta_fragment tcs))"

text \<open>The call is served live: caching is off, or no entry is stored for the request.\<close>

definition live ::
  "'v env \<Rightarrow> bool \<Rightarrow> string \<Rightarrow> real \<Rightarrow> real \<Rightarrow> schema list option \<Rightarrow> 'v state \<Rightarrow> bool" where
  "live env caching model temperature top_p functions s =
     (\<not> caching \<or> cache_entry env model temperature top_p (messages s) functions = None)"

text \<open>The request of lines 133-140.\<close>

definition request_of ::
  "'v env \<Rightarrow> string \<Rightarrow> real \<Rightarrow> real \<Rightarrow> schema list option \<Rightarrow> kwargs \<Rightarrow> message list \<Rightarrow> request" where
  "request_of env model temperature top_p functions provider_kwargs msgs =
     \<lparr>req_model = model, req_temperature = temperature, req_top_p = top_p,
      req_messages = msgs, req_stream = True,
      req_kwargs = request_kwargs provider_kwargs (resolve_functions env functions)\<rparr>"

text \<open>A result with fragments yielded before it.\<close>

definition prepend :: "string list \<Rightarrow> 'v result \<Rightarrow> 'v result" where
  "prepend xs r = (case r of (out, oc, s) \<Rightarrow> (xs @ out, oc, s))"

text \<open>The state once the decorated call has been recorded and its request sent.\<close>

definition sent :: "'v state \<Rightarrow> bool \<Rightarrow> capability \<Rightarrow> kwargs \<Rightarrow> request \<Rightarrow> 'v state" where
  "sent s caching cf pk req =
     s\<lparr>calls := calls s @ [caching], completion := Some cf, completion_kwargs := pk,
       requests := requests s @ [(cf, req)]\<rparr>"

text \<open>The state a run leaves behind.\<close>

definition final :: "'v result \<Rightarrow> 'v state" where
  "final r = snd (snd r)"

text \<open>What lines 22-43 construct from the configuration, given the parsed timeout.\<close>

definition resolved :: "'v env \<Rightarrow> int \<Rightarrow> capability \<times> kwargs" where
  "resolved env timeout =
     (let base_url = (if cfg env ''API_BASE_URL'' = ''default'' then KNone
                      else KStr (cfg env ''API_BASE_URL''))
      in if use_litellm env
         then (LiteLLM, [(''timeout'', KInt timeout), (''base_url'', base_url)])
         else (OpenAIClient [(''timeout'', KInt timeout),
                             (''api_key'', KStr (cfg env ''OPENAI_API_KEY'')),
                             (''base_url'', base_url)], []))"

text \<open>
  The accumulation per tool-call id, in the words of the specification: a delta belongs to
  the tool call whose id it carries or, when it carries none, to the call of the deltas
  before it, and the arguments of a call are the fragments of its own deltas in order.
  \<open>arguments_of_call i current tcs\<close> are the arguments of the call \<open>i\<close>, \<open>current\<close>
  being the id in force before \<open>tcs\<close>.
\<close>

fun arguments_of_call :: "string \<Rightarrow> string \<Rightarrow> tool_call_delta list \<Rightarrow> string" where
  "arguments_of_call i current [] = []"
| "arguments_of_call i current (tc # tcs) =
     (let current' = py_or (tcd_id tc) current
      in (if current' = i then delta_fragment tc else []) @ arguments_of_call i current' tcs)"

text \<open>Keyword arguments without tool fields, and with the tool fields of lines 129-131.\<close>

definition tool_free :: "kwargs \<Rightarrow> bool" where
  "tool_free kw =
     (map_of kw ''tool_choice'' = None \<and> map_of kw ''tools'' = None
      \<and> map_of kw ''parallel_tool_calls'' = None)"

definition tool_fields :: "kwargs \<Rightarrow> schema list option \<Rightarrow> bool" where
  "tool_fields kw fs =
     (if truthy fs
      then map_of kw ''tool_choice'' = Some (KStr ''auto'')
           \<and> map_of kw ''tools'' = Some (KTools (the fs))
           \<and> map_of kw ''parallel_tool_calls'' = Some (KBool False)
      else tool_free kw)"

text \<open>
  The module's globals as \<^verbatim>\<open>get_provider_completion\<close> leaves them: nothing memoized, or
  keyword arguments without tool fields.
\<close>

definition globals_ok :: "'v state \<Rightarrow> bool" where
  "globals_ok s = (completion s = None \<or> tool_free (completion_kwargs s))"

text \<open>The provider requests made between two states.\<close>

definition new_requests :: "'v state \<Rightarrow> 'v state \<Rightarrow> request list" where
  "new_requests s s' = map snd (drop (length (requests s)) (requests s'))"

text \<open>
  What a run keeps about the requests: started with globals as above, it ends with such
  globals, and every request it added has the tool fields that the schemas \<open>F\<close> call for.
\<close>

definition requests_rel :: "schema list option \<Rightarrow> 'v state \<Rightarrow> 'v state \<Rightarrow> bool" where
  "requests_rel F s s' =
     (globals_ok s \<longrightarrow>
        globals_ok s'
        \<and> (\<exists>new. requests s' = requests s @ new
                  \<and> list_all (\<lambda>r. tool_fields (req_kwargs r) F) (map snd new)))"

text \<open>The keyword arguments of lines 23-27, given the parsed timeout.\<close>

definition configured_kwargs :: "'v env \<Rightarrow> int \<Rightarrow> kwargs" where
  "configured_kwargs env timeout =
     [(''timeout'', KInt timeout),
      (''api_key'', KStr (cfg env ''OPENAI_API_KEY'')),
      (''base_url'', if cfg env ''API_BASE_URL'' = ''default'' then KNone
                     else KStr (cfg env ''API_BASE_URL''))]"

text \<open>
  The import of lines 29-30, or the construction of the client of line 40, does not raise.
\<close>

definition constructible :: "'v env \<Rightarrow> int \<Rightarrow> bool" where
  "constructible env timeout =
     (if use_litellm env then import_litellm env = None
      else new_client env (configured_kwargs env timeout) = None)"

subsection \<open>Example runs\<close>

text \<open>A content chunk, a chunk with one tool-call delta, and a chunk that only finishes.\<close>

definition content_chunk :: "string \<Rightarrow> item" where
  "content_chunk t =
     Chunk [\<lparr>choice_delta = \<lparr>delta_content = Some t, delta_tool_calls = None\<rparr>,
             finish_reason = None\<rparr>]"

definition call_delta :: "string option \<Rightarrow> string option \<Rightarrow> string \<Rightarrow> tool_call_delta" where
  "call_delta i n a = \<lparr>tcd_id = i, tcd_function = Val \<lparr>fn_name = n, fn_arguments = Val a\<rparr>\<rparr>"

definition call_chunk :: "string option \<Rightarrow> string option \<Rightarrow> string \<Rightarrow> item" where
  "call_chunk i n a =
     Chunk [\<lparr>choice_delta = \<lparr>delta_content = None, delta_tool_calls = Some [call_delta i n a]\<rparr>,
             finish_reason = None\<rparr>]"

definition finish_choice :: "string \<Rightarrow> choice" where
  "finish_choice r =
     \<lparr>choice_delta = \<lparr>delta_content = None, delta_tool_calls = None\<rparr>, finish_reason = Some r\<rparr>"

text \<open>The arguments \<^verbatim>\<open>{"city": "Oslo"}\<close>, which arrive in two fragments.\<close>

definition oslo_head :: string where
  "oslo_head = ''{'' @ [CHR 0x22] @ ''city'' @ [CHR 0x22] @ '': ''"

definition oslo_tail :: string where
  "oslo_tail = [CHR 0x22] @ ''Oslo'' @ [CHR 0x22] @ ''}''"

definition first_segment :: "item list" where
  "first_segment =
     [content_chunk ''Let me check. '',
      call_chunk (Some ''call_1'') (Some ''get_weather'') oslo_head,
      call_chunk None None oslo_tail]"

definition second_segment :: "item list" where
  "second_segment =
     [content_chunk ''It rains '', content_chunk ''in Oslo.'', Chunk [finish_choice ''stop'']]"

text \<open>
  A scripted provider: its first response ends with \<^verbatim>\<open>tool_calls\<close>, every later one
  with \<^verbatim>\<open>stop\<close>.
\<close>

definition scripted :: "nat \<Rightarrow> capability \<Rightarrow> request \<Rightarrow> exn + item list" where
  "scripted k c r =
     (if k = 0 then Inr (first_segment @ [Chunk [finish_choice ''tool_calls'']])
      else Inr second_segment)"

text \<open>A provider whose tool call has truncated arguments.\<close>

definition truncated :: "nat \<Rightarrow> capability \<Rightarrow> request \<Rightarrow> exn + item list" where
  "truncated k c r =
     Inr [content_chunk ''Let me check. '',
          call_chunk (Some ''call_1'') (Some ''get_weather'') oslo_head,
          Chunk [finish_choice ''tool_calls'']]"

text \<open>A provider whose stream is interrupted after two fragments.\<close>

definition interrupted :: "nat \<Rightarrow> capability \<Rightarrow> request \<Rightarrow> exn + item list" where
  "interrupted k c r =
     Inr [content_chunk ''It rains '', content_chunk ''in '', Fault KeyboardInterrupt,
          content_chunk ''Oslo.'']"

text \<open>
  An environment on the OpenAI client, with one registered function; parsed JSON values
  are kept as text.
\<close>

definition example_env ::
  "string \<Rightarrow> (nat \<Rightarrow> capability \<Rightarrow> request \<Rightarrow> exn + item list) \<Rightarrow> string env" where
  "example_env r p =
     \<lparr>cfg = (\<lambda>k. if k = ''REQUEST_TIMEOUT'' then ''60''
                  else if k = ''API_BASE_URL'' then ''default''
                  else if k = ''OPENAI_API_KEY'' then ''sk-example''
                  else ''false''),
      use_litellm = False,
      role_name = r,
      SHELL = ''Shell Command Generator'',
      CODE = ''Code Generator'',
      DESCRIBE_SHELL = ''Shell Command Descriptor'',
      py_int = (\<lambda>t. if t = ''60'' then Some 60 else None),
      import_litellm = None,
      new_client = (\<lambda>kw. None),
      provider = p,
      json_loads = (\<lambda>t. if t = oslo_head @ oslo_tail then Some ''dict'' else None),
      dict_items = (\<lambda>v. if v = ''dict'' then Some [(''city'', ''Oslo'')] else None),
      py_str = (\<lambda>v. v),
      get_function = (\<lambda>n. if n = ''get_weather'' then Inr (\<lambda>kvs. Inr ''rain'')
                           else Inl (Exn ''ValueError'')),
      cache_entry = (\<lambda>m t p ms fs. None)\<rparr>"

definition example_kwargs :: kwargs where
  "example_kwargs =
     [(''timeout'', KInt 60), (''api_key'', KStr ''sk-example''), (''base_url'', KNone)]"

definition user_message :: message where
  "user_message =
     \<lparr>role = ''user'', content = Some ''weather in Oslo?'', tool_calls = None,
      tool_call_id = None\<rparr>"

text \<open>The state of a process that has not resolved its provider yet.\<close>

definition fresh_state :: "string state" where
  "fresh_state =
     \<lparr>messages = [user_message], completion = None, completion_kwargs = [], requests = [],
      invocations = [], closed_responses = [], calls = []\<rparr>"

definition weather_schema :: schema where
  "weather_schema = [(''name'', ''get_weather'')]"

text \<open>The deltas of two tool calls in one stream.\<close>

definition two_calls :: "tool_call_delta list" where
  "two_calls =
     [call_delta (Some ''call_1'') (Some ''get_weather'') (oslo_head @ oslo_tail),
      call_delta (Some ''call_2'') (Some ''get_time'') ''{}'']"

text \<open>The example environment after its configuration was changed to one that does not parse.\<close>

definition changed_env :: "string env" where
  "changed_env =
     (example_env ''ShellGPT'' scripted)
       \<lparr>cfg := (\<lambda>k. ''changed''), use_litellm := True, py_int := (\<lambda>t. None)\<rparr>"

section \<open>Auxiliary lemmas\<close>

lemma last_nonempty_Nil: "last_nonempty [] d = d"
  by (simp add: last_nonempty_def nonempty_def)

lemma last_nonempty_Cons: "last_nonempty (x # xs) d = last_nonempty xs (py_or x d)"
  by (cases x) (auto simp: last_nonempty_def nonempty_def py_or_def)

lemma accumulate_one_ok:
  "delta_ok l tc \<Longrightarrow>
   accumulate_one l tc (i, n, a) =
     Inr (py_or (tcd_id tc) i, py_or (delta_name tc) n, a @ delta_fragment tc)"
  by (cases l; cases "tcd_function tc")
     (auto simp: delta_name_def delta_fragment_def py_or_def split: field.splits)

lemma accumulate_ok:
  "list_all (delta_ok l) tcs \<Longrightarrow>
   accumulate l tcs (i, n, a) =
     Inr (last_nonempty (map tcd_id tcs) i, last_nonempty (map delta_name tcs) n,
          a @ concat (map delta_fragment tcs))"
proof (induction tcs arbitrary: i n a)
  case Nil
  show ?case by (simp add: last_nonempty_Nil)
next
  case (Cons tc tcs)
  then show ?case
    by (simp add: accumulate_one_ok last_nonempty_Cons del: accumulate_one.simps delta_ok.simps)
qed

lemma accumulate_one_bad:
  "\<not> delta_ok l tc \<Longrightarrow> \<exists>e. accumulate_one l tc acc = Inl e"
  by (cases acc; cases l; cases "tcd_function tc") (auto split: field.splits)

lemma last_nonempty_append:
  "last_nonempty (xs @ ys) d = last_nonempty ys (last_nonempty xs d)"
  by (induction xs arbitrary: d) (simp_all add: last_nonempty_Nil last_nonempty_Cons)

lemma accumulated_Nil: "accumulated [] acc = acc"
  by (cases acc) (simp add: last_nonempty_Nil)

lemma accumulated_append:
  "accumulated (xs @ ys) acc = accumulated ys (accumulated xs acc)"
  by (cases acc) (simp add: last_nonempty_append)

lemma accumulate_accumulated:
  "list_all (delta_ok l) tcs \<Longrightarrow> accumulate l tcs acc = Inr (accumulated tcs acc)"
  by (cases acc) (simp add: accumulate_ok)

lemma then_gen_yield:
  "yield_then x (case r of (out, oc, s') \<Rightarrow> (xs @ out, oc, s')) =
   (case r of (out, oc, s') \<Rightarrow> ((x # xs) @ out, oc, s'))"
  by (cases r) (simp add: yield_then_def)

lemma drain_quiet_prefix:
  "list_all (quiet (use_litellm env)) pre \<Longrightarrow>
   drain env recurse (pre @ rest) acc s =
     (case drain env recurse rest (accumulated (stream_calls pre) acc) s of
        (out, oc, s') \<Rightarrow> (stream_fragments pre @ out, oc, s'))"
proof (induction pre arbitrary: acc)
  case Nil
  show ?case by (simp add: stream_calls_def stream_fragments_def accumulated_Nil)
next
  case (Cons x pre)
  show ?case
  proof (cases x)
    case (Fault e)
    with Cons.prems show ?thesis by simp
  next
    case (Chunk choices)
    show ?thesis
    proof (cases choices)
      case Nil
      with Chunk Cons show ?thesis
        by (simp add: stream_calls_def stream_fragments_def)
    next
      case (Cons c cs)
      from Cons Chunk Cons.prems
      have ok: "list_all (delta_ok (use_litellm env)) (delta_calls (choice_delta c))"
        and fin: "finish_reason c \<noteq> Some ''tool_calls''"
        and rest: "list_all (quiet (use_litellm env)) pre"
        by simp_all
      obtain i n a where acc': "accumulated (delta_calls (choice_delta c)) acc = (i, n, a)"
        by (cases "accumulated (delta_calls (choice_delta c)) acc") auto
      have calls: "accumulated (stream_calls (x # pre)) acc
                   = accumulated (stream_calls pre) (i, n, a)"
        using Chunk Cons acc' by (simp add: stream_calls_def accumulated_append)
      have frags: "stream_fragments (x # pre)
                   = py_or (delta_content (choice_delta c)) [] # stream_fragments pre"
        using Chunk Cons by (simp add: stream_fragments_def)
      have "drain env recurse ((x # pre) @ rest) acc s =
              yield_then (py_or (delta_content (choice_delta c)) [])
                (drain env recurse (pre @ rest) (i, n, a) s)"
        using Chunk Cons fin acc' by (simp add: accumulate_accumulated [OF ok])
      also have "\<dots> = (case drain env recurse rest (accumulated (stream_calls pre) (i, n, a)) s of
                         (out, oc, s') \<Rightarrow>
                           ((py_or (delta_content (choice_delta c)) [] # stream_fragments pre) @ out,
                            oc, s'))"
        by (simp only: Cons.IH [OF rest] then_gen_yield)
      finally show ?thesis by (simp only: calls frags)
    qed
  qed
qed

lemma drain_quiet:
  "list_all (quiet (use_litellm env)) items \<Longrightarrow>
   drain env recurse items acc s = (stream_fragments items, Returned, s)"
  using drain_quiet_prefix [of env items recurse "[]" acc s] by simp

lemma drain_tool_call:
  assumes "list_all (delta_ok (use_litellm env)) (delta_calls (choice_delta c))"
    and "finish_reason c = Some ''tool_calls''"
    and "accumulated (delta_calls (choice_delta c)) acc = (i, n, a)"
  shows "drain env recurse (Chunk (c # cs) # rest) acc s =
           then_gen (handle_function_call env i n a s) recurse"
  using assms by (simp add: accumulate_accumulated)

lemma get_provider_completion_memo:
  "completion s = Some c \<Longrightarrow>
   get_provider_completion env s = Inr ((c, completion_kwargs s), s)"
  by (simp add: get_provider_completion_def)

lemma get_provider_completion_Inr:
  assumes "get_provider_completion env s = Inr ((c, kw), s1)"
  shows "s1 = s\<lparr>completion := Some c, completion_kwargs := kw\<rparr>"
  using assms
  by (auto simp: get_provider_completion_def Let_def split: option.splits if_splits)

lemma cache_live:
  "live env caching model temperature top_p functions s \<Longrightarrow>
   cache env caching model temperature top_p functions producer s =
     producer (s\<lparr>calls := calls s @ [caching]\<rparr>)"
  by (auto simp: cache_def live_def Let_def)

lemma get_provider_completion_calls:
  "get_provider_completion env (s\<lparr>calls := cs\<rparr>) =
     map_sum id (\<lambda>(r, s'). (r, s'\<lparr>calls := cs\<rparr>)) (get_provider_completion env s)"
  by (auto simp: get_provider_completion_def Let_def split: option.splits)

lemma get_completion_body_stream:
  assumes "get_provider_completion env s = Inr ((cf, pk), s1)"
    and "provider env (length (requests s)) cf
           (request_of env model temperature top_p functions pk (messages s)) = Inr stream"
  shows "get_completion_body env recurse model temperature top_p functions s =
           except_KeyboardInterrupt (length (requests s))
             (drain env (recurse (resolve_functions env functions)) stream ([], [], [])
                (s\<lparr>completion := Some cf, completion_kwargs := pk,
                   requests := requests s
                     @ [(cf, request_of env model temperature top_p functions pk (messages s))]\<rparr>))"
proof -
  have s1: "s1 = s\<lparr>completion := Some cf, completion_kwargs := pk\<rparr>"
    using assms(1) by (rule get_provider_completion_Inr)
  show ?thesis
    using assms unfolding get_completion_body_def request_of_def s1
    by (simp add: Let_def)
qed

lemma handle_function_call_parse_error:
  "json_loads env arguments = None \<Longrightarrow>
   handle_function_call env i name arguments s =
     ([newline], Raised (JSONDecodeError arguments),
      s\<lparr>messages := messages s @ [assistant_message i name arguments]\<rparr>)"
  by (simp add: handle_function_call_def Let_def assistant_message_def)

lemma handle_function_call_ok:
  assumes "json_loads env arguments = Some v" and "dict_items env v = Some kvs"
    and "get_function env name = Inr f" and "f kvs = Inr result"
  shows "handle_function_call env i name arguments s =
     ([newline, trace_line name (joined_args env kvs)]
        @ (if cfg env ''SHOW_FUNCTIONS_OUTPUT'' = ''true'' then [output_block result] else []),
      Returned,
      s\<lparr>messages := messages s @ [assistant_message i name arguments, tool_message result i],
        invocations := invocations s @ [(name, kvs)]\<rparr>)"
  using assms by (simp add: handle_function_call_def Let_def assistant_message_def)

lemma get_completion_Suc_prefix:
  assumes lv: "live env caching model temperature top_p functions s"
    and gpc: "get_provider_completion env s = Inr ((cf, pk), s1)"
    and req: "req = request_of env model temperature top_p functions pk (messages s)"
    and prov: "provider env (length (requests s)) cf req = Inr (pre @ rest)"
    and pre: "list_all (quiet (use_litellm env)) pre"
  shows "get_completion (Suc fuel) env caching model temperature top_p functions s =
           except_KeyboardInterrupt (length (requests s))
             (prepend (stream_fragments pre)
                (drain env
                   (get_completion fuel env False model temperature top_p
                      (resolve_functions env functions))
                   rest (accumulated (stream_calls pre) ([], [], []))
                   (sent s caching cf pk req)))"
proof -
  let ?s = "s\<lparr>calls := calls s @ [caching]\<rparr>"
  have s1: "s1 = s\<lparr>completion := Some cf, completion_kwargs := pk\<rparr>"
    using gpc by (rule get_provider_completion_Inr)
  have gpc': "get_provider_completion env ?s = Inr ((cf, pk), s1\<lparr>calls := calls s @ [caching]\<rparr>)"
    by (simp add: get_provider_completion_calls gpc)
  have prov': "provider env (length (requests ?s)) cf
                 (request_of env model temperature top_p functions pk (messages ?s))
               = Inr (pre @ rest)"
    using prov req by simp
  have "get_completion (Suc fuel) env caching model temperature top_p functions s =
          get_completion_body env (get_completion fuel env False model temperature top_p)
            model temperature top_p functions ?s"
    by (simp add: cache_live [OF lv])
  also have "\<dots> = except_KeyboardInterrupt (length (requests s))
             (drain env
                (get_completion fuel env False model temperature top_p
                   (resolve_functions env functions))
                (pre @ rest) ([], [], []) (sent s caching cf pk req))"
    by (simp add: get_completion_body_stream [OF gpc' prov'] sent_def req)
  finally show ?thesis
    by (simp add: drain_quiet_prefix [OF pre] prepend_def)
qed

lemma final_simps [simp]: "final (out, oc, s) = s"
  by (simp add: final_def)

lemma final_yield_then [simp]: "final (yield_then x r) = final r"
  by (cases r) (simp add: yield_then_def)

lemma final_except [simp]:
  "final (except_KeyboardInterrupt n r) =
     (if fst (snd r) = Raised KeyboardInterrupt
      then (final r)\<lparr>closed_responses := closed_responses (final r) @ [n]\<rparr> else final r)"
  by (cases r) (simp add: except_KeyboardInterrupt_def)

lemma final_then_gen:
  "final (then_gen r k) = (if fst (snd r) = Returned then final (k (final r)) else final r)"
  by (cases r; cases "fst (snd r)"; cases "k (final r)") (auto simp: then_gen_def)

lemma state_update_ex:
  "\<exists>ms' iv. t\<lparr>messages := ms\<rparr> = t\<lparr>messages := ms', invocations := iv\<rparr>"
  by (rule exI [of _ ms], rule exI [of _ "invocations t"]) simp

lemma state_update_ex2:
  "\<exists>ms' iv'. t\<lparr>invocations := iv, messages := ms\<rparr>
     = t\<lparr>messages := ms', invocations := iv'\<rparr>"
  by (rule exI [of _ ms], rule exI [of _ iv]) simp

lemma final_handle_function_call:
  "\<exists>ms iv. final (handle_function_call env i n a s) = s\<lparr>messages := ms, invocations := iv\<rparr>"
  unfolding handle_function_call_def Let_def
  by (auto split: option.splits sum.splits simp: state_update_ex state_update_ex2)

text \<open>A relation between the state before and after that every step of the loop keeps.\<close>

lemma drain_rel:
  assumes refl: "\<And>s. T s s"
    and trans: "\<And>s s' s''. T s s' \<Longrightarrow> T s' s'' \<Longrightarrow> T s s''"
    and hfc: "\<And>s ms iv. T s (s\<lparr>messages := ms, invocations := iv\<rparr>)"
    and rec: "\<And>s. T s (final (recurse s))"
  shows "T s (final (drain env recurse items acc s))"
proof (induction items arbitrary: acc)
  case Nil
  show ?case by (simp add: refl)
next
  case (Cons x items)
  show ?case
  proof (cases x)
    case (Fault e)
    then show ?thesis by (simp add: refl)
  next
    case (Chunk choices)
    show ?thesis
    proof (cases choices)
      case Nil
      with Chunk Cons.IH show ?thesis by simp
    next
      case (Cons c cs)
      show ?thesis
      proof (cases "accumulate (use_litellm env) (delta_calls (choice_delta c)) acc")
        case (Inl e)
        with Chunk Cons show ?thesis by (simp add: refl)
      next
        case (Inr acc')
        obtain i n a where acc': "acc' = (i, n, a)" by (cases acc') auto
        show ?thesis
        proof (cases "finish_reason c = Some ''tool_calls''")
          case False
          with Chunk Cons Inr acc' Cons.IH show ?thesis by simp
        next
          case True
          obtain ms iv where h: "final (handle_function_call env i n a s)
                                 = s\<lparr>messages := ms, invocations := iv\<rparr>"
            using final_handle_function_call by blast
          have "T s (final (then_gen (handle_function_call env i n a s) recurse))"
            unfolding final_then_gen
            using hfc [where s = s and ms = ms and iv = iv]
              rec [where s = "s\<lparr>messages := ms, invocations := iv\<rparr>"] h
            by (auto intro: trans)
          with True Chunk Cons Inr acc' show ?thesis by simp
        qed
      qed
    qed
  qed
qed

lemma get_provider_completion_cases:
  obtains (error) e where "get_provider_completion env s = Inl e"
  | (ok) cf pk where
      "get_provider_completion env s
         = Inr ((cf, pk), s\<lparr>completion := Some cf, completion_kwargs := pk\<rparr>)"
proof (cases "get_provider_completion env s")
  case (Inl e)
  then show ?thesis by (rule error)
next
  case (Inr r)
  obtain cf pk s1 where r: "r = ((cf, pk), s1)" by (cases r) auto
  with Inr get_provider_completion_Inr [of env s cf pk s1] show ?thesis
    by (auto intro: ok)
qed

lemma get_completion_body_rel:
  assumes refl: "\<And>s. T s s"
    and trans: "\<And>s s' s''. T s s' \<Longrightarrow> T s' s'' \<Longrightarrow> T s s''"
    and hfc: "\<And>s ms iv. T s (s\<lparr>messages := ms, invocations := iv\<rparr>)"
    and closed: "\<And>s cl. T s (s\<lparr>closed_responses := cl\<rparr>)"
    and send: "\<And>s cf pk.
       get_provider_completion env s
         = Inr ((cf, pk), s\<lparr>completion := Some cf, completion_kwargs := pk\<rparr>) \<Longrightarrow>
       T s (s\<lparr>completion := Some cf, completion_kwargs := pk,
               requests := requests s
                 @ [(cf, request_of env model temperature top_p functions pk (messages s))]\<rparr>)"
    and rec: "\<And>s. T s (final (recurse (resolve_functions env functions) s))"
  shows "T s (final (get_completion_body env recurse model temperature top_p functions s))"
proof (cases env s rule: get_provider_completion_cases)
  case (error e)
  then show ?thesis by (simp add: get_completion_body_def refl)
next
  case (ok cf pk)
  let ?req = "request_of env model temperature top_p functions pk (messages s)"
  let ?s2 = "s\<lparr>completion := Some cf, completion_kwargs := pk,
                requests := requests s @ [(cf, ?req)]\<rparr>"
  have s2: "T s ?s2" using ok by (rule send)
  show ?thesis
  proof (cases "provider env (length (requests s)) cf ?req")
    case (Inl e)
    with ok s2 show ?thesis
      by (simp add: get_completion_body_def Let_def request_of_def)
  next
    case (Inr stream)
    let ?d = "drain env (recurse (resolve_functions env functions)) stream ([], [], []) ?s2"
    have d: "T ?s2 (final ?d)"
    proof (rule drain_rel [where T = T])
      fix a b c
      assume "T a b" and "T b c"
      then show "T a c" by (rule trans)
    qed (rule refl, rule hfc, rule rec)
    have "T s (final ?d)" using s2 d by (rule trans)
    moreover have "T s ((final ?d)\<lparr>closed_responses := cl\<rparr>)" for cl
      using \<open>T s (final ?d)\<close> closed by (rule trans)
    ultimately show ?thesis
      by (simp add: get_completion_body_stream [OF ok Inr])
  qed
qed

lemma get_completion_rel:
  assumes refl: "\<And>s. T s s"
    and trans: "\<And>s s' s''. T s s' \<Longrightarrow> T s' s'' \<Longrightarrow> T s s''"
    and hfc: "\<And>s ms iv. T s (s\<lparr>messages := ms, invocations := iv\<rparr>)"
    and closed: "\<And>s cl. T s (s\<lparr>closed_responses := cl\<rparr>)"
    and logged: "\<And>s. T s (s\<lparr>calls := calls s @ [False]\<rparr>)"
    and send: "\<And>s cf pk msgs.
       get_provider_completion env s
         = Inr ((cf, pk), s\<lparr>completion := Some cf, completion_kwargs := pk\<rparr>) \<Longrightarrow>
       T s (s\<lparr>completion := Some cf, completion_kwargs := pk,
               requests := requests s
                 @ [(cf, \<lparr>req_model = model, req_temperature = temperature,
                          req_top_p = top_p, req_messages = msgs, req_stream = True,
                          req_kwargs = request_kwargs pk F\<rparr>)]\<rparr>)"
  shows "resolve_functions env fs = F \<Longrightarrow>
         T s (final (get_completion n env False model temperature top_p fs s))"
proof (induction n arbitrary: s fs)
  case 0
  show ?case by (simp add: refl)
next
  case (Suc n)
  have idem: "resolve_functions env (resolve_functions env fs) = F"
    using Suc.prems by (auto simp: resolve_functions_def Let_def)
  let ?s = "s\<lparr>calls := calls s @ [False]\<rparr>"
  have "T ?s (final (get_completion_body env
                (get_completion n env False model temperature top_p)
                model temperature top_p fs ?s))"
  proof (rule get_completion_body_rel [where T = T])
    fix t cf pk
    assume "get_provider_completion env t
              = Inr ((cf, pk), t\<lparr>completion := Some cf, completion_kwargs := pk\<rparr>)"
    from send [OF this, of "messages t"]
    show "T t (t\<lparr>completion := Some cf, completion_kwargs := pk,
                 requests := requests t
                   @ [(cf, request_of env model temperature top_p fs pk (messages t))]\<rparr>)"
      by (simp add: request_of_def Suc.prems)
  next
    fix t
    show "T t (final (get_completion n env False model temperature top_p
                        (resolve_functions env fs) t))"
      by (rule Suc.IH) (rule idem)
  next
    fix a b c
    assume "T a b" and "T b c"
    then show "T a c" by (rule trans)
  qed (rule refl, rule hfc, rule closed)
  with logged [of s] have "T s (final (get_completion_body env
                (get_completion n env False model temperature top_p)
                model temperature top_p fs ?s))"
    by (rule trans)
  then show ?case by (simp add: cache_def Let_def)
qed

lemma get_provider_completion_example:
  "get_provider_completion (example_env r p) fresh_state =
     Inr ((OpenAIClient example_kwargs, []),
          fresh_state\<lparr>completion := Some (OpenAIClient example_kwargs), completion_kwargs := []\<rparr>)"
  by (simp add: get_provider_completion_def example_env_def fresh_state_def example_kwargs_def
      Let_def)

lemma get_completion_False_calls:
  "\<exists>k. calls (final (get_completion n env False model temperature top_p fs s))
        = calls s @ replicate k False"
proof (rule get_completion_rel
    [where T = "\<lambda>s s'. \<exists>k. calls s' = calls s @ replicate k False" and F = "resolve_functions env fs"])
  fix a :: "'a state"
  show "\<exists>k. calls a = calls a @ replicate k False"
    by (rule exI [of _ 0]) simp
next
  fix a b c :: "'a state"
  assume "\<exists>k. calls b = calls a @ replicate k False"
    and "\<exists>k. calls c = calls b @ replicate k False"
  then obtain j k where "calls b = calls a @ replicate j False"
    and "calls c = calls b @ replicate k False" by blast
  then have "calls c = calls a @ replicate (j + k) False"
    by (simp add: replicate_add)
  then show "\<exists>k. calls c = calls a @ replicate k False" ..
next
  fix a :: "'a state" and ms iv
  show "\<exists>k. calls (a\<lparr>messages := ms, invocations := iv\<rparr>) = calls a @ replicate k False"
    by (rule exI [of _ 0]) simp
next
  fix a :: "'a state" and cl
  show "\<exists>k. calls (a\<lparr>closed_responses := cl\<rparr>) = calls a @ replicate k False"
    by (rule exI [of _ 0]) simp
next
  fix a :: "'a state"
  show "\<exists>k. calls (a\<lparr>calls := calls a @ [False]\<rparr>) = calls a @ replicate k False"
    by (rule exI [of _ 1]) simp
next
  fix a :: "'a state" and cf pk msgs
  show "\<exists>k. calls (a\<lparr>completion := Some cf, completion_kwargs := pk,
               requests := requests a
                 @ [(cf, \<lparr>req_model = model, req_temperature = temperature,
                          req_top_p = top_p, req_messages = msgs, req_stream = True,
                          req_kwargs = request_kwargs pk (resolve_functions env fs)\<rparr>)]\<rparr>)
          = calls a @ replicate k False"
    by (rule exI [of _ 0]) simp
qed simp

lemma resolve_functions_idem:
  "resolve_functions env (resolve_functions env fs) = resolve_functions env fs"
  by (simp add: resolve_functions_def Let_def)

lemma request_of_resolved:
  "request_of env model temperature top_p (resolve_functions env fs) pk ms
     = request_of env model temperature top_p fs pk ms"
  by (simp add: request_of_def resolve_functions_idem)

lemma get_completion_Suc_quiet:
  assumes lv: "live env caching model temperature top_p fs s"
    and gpc: "get_provider_completion env s = Inr ((cf, pk), s1)"
    and req: "req = request_of env model temperature top_p fs pk (messages s)"
    and prov: "provider env (length (requests s)) cf req = Inr stream"
    and quiet: "list_all (quiet (use_litellm env)) stream"
  shows "get_completion (Suc fuel) env caching model temperature top_p fs s =
           (stream_fragments stream, Returned, sent s caching cf pk req)"
proof -
  have prov': "provider env (length (requests s)) cf req = Inr (stream @ [])"
    using prov by simp
  show ?thesis
    unfolding get_completion_Suc_prefix [OF lv gpc req prov' quiet]
    by (simp add: prepend_def except_KeyboardInterrupt_def)
qed

lemma then_gen_Returned: "then_gen (out, Returned, s) k = prepend out (k s)"
  by (cases "k s") (simp add: then_gen_def prepend_def)

lemmas example_defs =
  example_env_def scripted_def first_segment_def second_segment_def content_chunk_def
  call_chunk_def call_delta_def finish_choice_def fresh_state_def

lemma scripted_run:
  "fst (get_completion (Suc (Suc 0)) (example_env ''ShellGPT'' scripted) False ''gpt-4o'' 0 1
          (Some [weather_schema]) fresh_state)
   = [''Let me check. '', [], [], newline,
      trace_line ''get_weather'' (''city='' @ [CHR 0x22] @ ''Oslo'' @ [CHR 0x22]),
      ''It rains '', ''in Oslo.'', []]"
  by (simp add: example_defs cache_def get_completion_body_def get_provider_completion_def
      Let_def resolve_functions_def request_kwargs_def truthy_def delta_calls_def py_or_def
      handle_function_call_def then_gen_def yield_then_def except_KeyboardInterrupt_def
      oslo_head_def oslo_tail_def joined_args_def assistant_message_def)

lemma quiet_calls_ok:
  "list_all (quiet l) pre \<Longrightarrow> list_all (delta_ok l) (stream_calls pre)"
proof (induction pre)
  case Nil
  show ?case by (simp add: stream_calls_def)
next
  case (Cons x pre)
  then show ?case
    by (cases x rule: item_calls.cases) (simp_all add: stream_calls_def del: delta_ok.simps)
qed

lemma request_kwargs_tool_fields:
  "tool_free pk \<Longrightarrow> tool_fields (request_kwargs pk fs) fs"
  by (simp add: tool_fields_def tool_free_def request_kwargs_def AList.update_conv')

lemma get_provider_completion_tool_free:
  assumes "globals_ok s" and "get_provider_completion env s = Inr ((cf, pk), s')"
  shows "tool_free pk \<and> globals_ok s'"
proof (cases "completion s")
  case (Some c)
  with assms show ?thesis
    by (auto simp: get_provider_completion_def globals_ok_def)
next
  case None
  with assms(2) show ?thesis
    by (auto simp: get_provider_completion_def globals_ok_def tool_free_def Let_def
        split: option.splits if_splits)
qed

lemma requests_rel_refl: "requests_rel F s s"
  by (simp add: requests_rel_def)

lemma requests_rel_trans:
  assumes "requests_rel F a b" and "requests_rel F b c"
  shows "requests_rel F a c"
proof (unfold requests_rel_def, intro impI)
  assume a: "globals_ok a"
  with assms(1) obtain n1 where b: "globals_ok b" and r1: "requests b = requests a @ n1"
    and p1: "list_all (\<lambda>r. tool_fields (req_kwargs r) F) (map snd n1)"
    by (auto simp: requests_rel_def)
  from b assms(2) obtain n2 where c: "globals_ok c" and r2: "requests c = requests b @ n2"
    and p2: "list_all (\<lambda>r. tool_fields (req_kwargs r) F) (map snd n2)"
    by (auto simp: requests_rel_def)
  have "requests c = requests a @ (n1 @ n2)" using r1 r2 by simp
  moreover have "list_all (\<lambda>r. tool_fields (req_kwargs r) F) (map snd (n1 @ n2))"
    using p1 p2 by simp
  ultimately show "globals_ok c
    \<and> (\<exists>new. requests c = requests a @ new
              \<and> list_all (\<lambda>r. tool_fields (req_kwargs r) F) (map snd new))"
    using c by blast
qed

lemma requests_rel_other:
  "requests s' = requests s \<Longrightarrow> completion s' = completion s \<Longrightarrow>
   completion_kwargs s' = completion_kwargs s \<Longrightarrow> requests_rel F s s'"
  by (simp add: requests_rel_def globals_ok_def)

lemma requests_rel_send:
  assumes "get_provider_completion env s
             = Inr ((cf, pk), s\<lparr>completion := Some cf, completion_kwargs := pk\<rparr>)"
  shows "requests_rel F s
           (s\<lparr>completion := Some cf, completion_kwargs := pk,
              requests := requests s
                @ [(cf, \<lparr>req_model = model, req_temperature = temperature,
                         req_top_p = top_p, req_messages = msgs, req_stream = True,
                         req_kwargs = request_kwargs pk F\<rparr>)]\<rparr>)"
proof (unfold requests_rel_def, intro impI)
  assume "globals_ok s"
  from get_provider_completion_tool_free [OF this assms]
  have pk: "tool_free pk" by simp
  then show "globals_ok (s\<lparr>completion := Some cf, completion_kwargs := pk,
              requests := requests s
                @ [(cf, \<lparr>req_model = model, req_temperature = temperature,
                         req_top_p = top_p, req_messages = msgs, req_stream = True,
                         req_kwargs = request_kwargs pk F\<rparr>)]\<rparr>)
      \<and> (\<exists>new. requests (s\<lparr>completion := Some cf, completion_kwargs := pk,
              requests := requests s
                @ [(cf, \<lparr>req_model = model, req_temperature = temperature,
                         req_top_p = top_p, req_messages = msgs, req_stream = True,
                         req_kwargs = request_kwargs pk F\<rparr>)]\<rparr>) = requests s @ new
            \<and> list_all (\<lambda>r. tool_fields (req_kwargs r) F) (map snd new))"
    by (simp add: globals_ok_def request_kwargs_tool_fields)
qed

lemma get_completion_False_requests:
  "requests_rel (resolve_functions env fs) s
     (final (get_completion n env False model temperature top_p fs s))"
proof (rule get_completion_rel [where T = "requests_rel (resolve_functions env fs)"
      and F = "resolve_functions env fs"])
  fix a b c :: "'a state"
  assume "requests_rel (resolve_functions env fs) a b"
    and "requests_rel (resolve_functions env fs) b c"
  then show "requests_rel (resolve_functions env fs) a c" by (rule requests_rel_trans)
next
  fix a :: "'a state" and cf pk msgs
  assume "get_provider_completion env a
            = Inr ((cf, pk), a\<lparr>completion := Some cf, completion_kwargs := pk\<rparr>)"
  then show "requests_rel (resolve_functions env fs) a
           (a\<lparr>completion := Some cf, completion_kwargs := pk,
              requests := requests a
                @ [(cf, \<lparr>req_model = model, req_temperature = temperature,
                         req_top_p = top_p, req_messages = msgs, req_stream = True,
                         req_kwargs = request_kwargs pk (resolve_functions env fs)\<rparr>)]\<rparr>)"
    by (rule requests_rel_send)
qed (simp_all add: requests_rel_refl requests_rel_other)

lemma get_completion_requests:
  "requests_rel (resolve_functions env fs) s
     (final (get_completion n env caching model temperature top_p fs s))"
proof (cases n)
  case 0
  then show ?thesis by (simp add: requests_rel_refl)
next
  case (Suc fuel)
  let ?F = "resolve_functions env fs"
  let ?s = "s\<lparr>calls := calls s @ [caching]\<rparr>"
  have logged: "requests_rel ?F s ?s" by (simp add: requests_rel_other)
  have body: "requests_rel ?F ?s (final (get_completion_body env
                (get_completion fuel env False model temperature top_p)
                model temperature top_p fs ?s))"
  proof (rule get_completion_body_rel [where T = "requests_rel ?F"])
    fix a b c :: "'a state"
    assume "requests_rel ?F a b" and "requests_rel ?F b c"
    then show "requests_rel ?F a c" by (rule requests_rel_trans)
  next
    fix a :: "'a state" and cf pk
    assume "get_provider_completion env a
              = Inr ((cf, pk), a\<lparr>completion := Some cf, completion_kwargs := pk\<rparr>)"
    from requests_rel_send [OF this, of ?F model temperature top_p "messages a"]
    show "requests_rel ?F a
           (a\<lparr>completion := Some cf, completion_kwargs := pk,
              requests := requests a
                @ [(cf, request_of env model temperature top_p fs pk (messages a))]\<rparr>)"
      by (simp add: request_of_def)
  next
    fix a :: "'a state"
    have "requests_rel (resolve_functions env ?F) a
            (final (get_completion fuel env False model temperature top_p ?F a))"
      by (rule get_completion_False_requests)
    then show "requests_rel ?F a
            (final (get_completion fuel env False model temperature top_p ?F a))"
      by (simp add: resolve_functions_idem)
  qed (simp_all add: requests_rel_refl requests_rel_other)
  show ?thesis
  proof (cases "caching \<and> cache_entry env model temperature top_p (messages s) fs \<noteq> None")
    case True
    with Suc logged show ?thesis by (auto simp: cache_def Let_def)
  next
    case False
    then have "get_completion (Suc fuel) env caching model temperature top_p fs s
               = get_completion_body env (get_completion fuel env False model temperature top_p)
                   model temperature top_p fs ?s"
      by (auto simp: cache_def Let_def)
    with Suc requests_rel_trans [OF logged body] show ?thesis by simp
  qed
qed

lemma new_requests_tool_fields:
  assumes "globals_ok s"
  shows "list_all (\<lambda>r. tool_fields (req_kwargs r) (resolve_functions env fs))
           (new_requests s (final (get_completion n env caching model temperature top_p fs s)))"
  using get_completion_requests [of env fs s n caching model temperature top_p] assms
  by (auto simp: requests_rel_def new_requests_def)

lemma globals_ok_fresh: "globals_ok fresh_state"
  by (simp add: globals_ok_def fresh_state_def)

lemma function_schemas_truthy:
  "truthy (function_schemas env use_functions schemas)
     = (use_functions \<and> role_supports_functions env \<and> schemas \<noteq> [])"
  by (auto simp: function_schemas_def truthy_def)

lemma get_completion_Suc_calls:
  "\<exists>k. calls (final (get_completion (Suc fuel) env caching model temperature top_p fs s))
        = calls s @ caching # replicate k False"
proof -
  let ?T = "\<lambda>s s' :: 'a state. \<exists>k. calls s' = calls s @ replicate k False"
  let ?s = "s\<lparr>calls := calls s @ [caching]\<rparr>"
  have body: "?T ?s (final (get_completion_body env
                (get_completion fuel env False model temperature top_p)
                model temperature top_p fs ?s))"
  proof (rule get_completion_body_rel [where T = ?T])
    fix a b c :: "'a state"
    assume "?T a b" and "?T b c"
    then obtain j k where "calls b = calls a @ replicate j False"
      and "calls c = calls b @ replicate k False" by blast
    then have "calls c = calls a @ replicate (j + k) False"
      by (simp add: replicate_add)
    then show "?T a c" ..
  next
    fix a :: "'a state"
    show "?T a (final (get_completion fuel env False model temperature top_p
                         (resolve_functions env fs) a))"
      by (rule get_completion_False_calls)
  qed (rule exI [of _ 0], simp)+
  show ?thesis
  proof (cases "caching \<and> cache_entry env model temperature top_p (messages s) fs \<noteq> None")
    case True
    then have "calls (final (get_completion (Suc fuel) env caching model temperature top_p fs s))
               = calls s @ caching # replicate 0 False"
      by (auto simp: cache_def Let_def)
    then show ?thesis ..
  next
    case False
    then have "get_completion (Suc fuel) env caching model temperature top_p fs s
               = get_completion_body env (get_completion fuel env False model temperature top_p)
                   model temperature top_p fs ?s"
      by (auto simp: cache_def Let_def)
    with body show ?thesis by simp
  qed
qed

lemma get_provider_completion_first:
  assumes "completion s = None"
    and "py_int env (cfg env ''REQUEST_TIMEOUT'') = Some timeout"
    and "constructible env timeout"
  shows "get_provider_completion env s =
           Inr (resolved env timeout,
                s\<lparr>completion := Some (fst (resolved env timeout)),
                  completion_kwargs := snd (resolved env timeout)\<rparr>)"
  using assms
  by (auto simp: get_provider_completion_def resolved_def constructible_def
      configured_kwargs_def Let_def)

lemma prepend_prepend: "prepend xs (prepend ys r) = prepend (xs @ ys) r"
  by (cases r) (simp add: prepend_def)

lemma final_prepend [simp]: "final (prepend xs r) = final r"
  by (cases r) (simp add: prepend_def)

lemma calls_final_except [simp]:
  "calls (final (except_KeyboardInterrupt k r)) = calls (final r)"
  by simp

lemma requests_final_except [simp]:
  "requests (final (except_KeyboardInterrupt k r)) = requests (final r)"
  by simp

lemma get_completion_False_requests_grow:
  "\<exists>rest. requests (final (get_completion n env False model temperature top_p fs s))
           = requests s @ rest"
proof (rule get_completion_rel
    [where T = "\<lambda>s s'. \<exists>rest. requests s' = requests s @ rest"
       and F = "resolve_functions env fs"])
  fix a b c :: "'a state"
  assume "\<exists>rest. requests b = requests a @ rest" and "\<exists>rest. requests c = requests b @ rest"
  then obtain r1 r2 where "requests b = requests a @ r1" and "requests c = requests b @ r2"
    by blast
  then have "requests c = requests a @ (r1 @ r2)" by simp
  then show "\<exists>rest. requests c = requests a @ rest" ..
qed simp_all

lemma get_completion_Suc_first_request:
  assumes lv: "live env caching model temperature top_p fs s"
    and gpc: "get_provider_completion env s = Inr ((cf, pk), s1)"
  shows "\<exists>rest. requests (final (get_completion (Suc n) env caching model temperature top_p fs s))
           = requests s @ (cf, request_of env model temperature top_p fs pk (messages s)) # rest"
proof -
  let ?req = "request_of env model temperature top_p fs pk (messages s)"
  let ?s = "s\<lparr>calls := calls s @ [caching]\<rparr>"
  let ?s2 = "?s\<lparr>completion := Some cf, completion_kwargs := pk,
                 requests := requests ?s @ [(cf, ?req)]\<rparr>"
  let ?rec = "get_completion n env False model temperature top_p"
  have s1: "s1 = s\<lparr>completion := Some cf, completion_kwargs := pk\<rparr>"
    using gpc by (rule get_provider_completion_Inr)
  have gpc': "get_provider_completion env ?s = Inr ((cf, pk), s1\<lparr>calls := calls s @ [caching]\<rparr>)"
    by (simp add: get_provider_completion_calls gpc)
  have run: "get_completion (Suc n) env caching model temperature top_p fs s =
          get_completion_body env ?rec model temperature top_p fs ?s"
    by (simp add: cache_live [OF lv])
  show ?thesis
  proof (cases "provider env (length (requests s)) cf ?req")
    case (Inl e)
    then have "final (get_completion_body env ?rec model temperature top_p fs ?s) = ?s2"
      by (simp add: get_completion_body_def gpc' s1 Let_def request_of_def)
    then have "requests (final (get_completion (Suc n) env caching model temperature top_p fs s))
               = requests s @ (cf, ?req) # []"
      by (simp add: run del: get_completion.simps)
    then show ?thesis ..
  next
    case (Inr stream)
    then have prov': "provider env (length (requests ?s)) cf
                 (request_of env model temperature top_p fs pk (messages ?s)) = Inr stream"
      by simp
    let ?d = "drain env (?rec (resolve_functions env fs)) stream ([], [], []) ?s2"
    have "\<exists>rest. requests (final ?d) = requests ?s2 @ rest"
    proof (rule drain_rel [where T = "\<lambda>s s'. \<exists>rest. requests s' = requests s @ rest"])
      fix a b c :: "'a state"
      assume "\<exists>rest. requests b = requests a @ rest"
        and "\<exists>rest. requests c = requests b @ rest"
      then obtain r1 r2 where "requests b = requests a @ r1" and "requests c = requests b @ r2"
        by blast
      then have "requests c = requests a @ (r1 @ r2)" by simp
      then show "\<exists>rest. requests c = requests a @ rest" ..
    next
      fix a :: "'a state"
      show "\<exists>rest. requests (final (?rec (resolve_functions env fs) a)) = requests a @ rest"
        by (rule get_completion_False_requests_grow)
    qed simp_all
    then obtain rest where "requests (final ?d) = requests s @ (cf, ?req) # rest"
      by auto
    moreover have "get_completion_body env ?rec model temperature top_p fs ?s
                   = except_KeyboardInterrupt (length (requests s)) ?d"
      using get_completion_body_stream [OF gpc' prov'] by simp
    ultimately have "requests (final (get_completion (Suc n) env caching model temperature
                                        top_p fs s)) = requests s @ (cf, ?req) # rest"
      by (simp only: run requests_final_except)
    then show ?thesis ..
  qed
qed

section \<open>The claims\<close>

text \<open>
  Claim C10. If parsing the tool-call arguments fails, the in-flight message list has
  already been changed: the assistant message that records the tool call was appended
  before the parse and stays there, no tool-role message follows it, and the function
  is not invoked. The operation is not atomic on the message list.
\<close>

theorem parse_failure_leaves_assistant_message:
  assumes "json_loads env arguments = None"
  shows "handle_function_call env i name arguments s =
           ([newline], Raised (JSONDecodeError arguments),
            s\<lparr>messages := messages s @ [assistant_message i name arguments]\<rparr>)
         \<and> messages (final (handle_function_call env i name arguments s))
             = messages s @ [assistant_message i name arguments]
         \<and> role (assistant_message i name arguments) = ''assistant''
         \<and> invocations (final (handle_function_call env i name arguments s)) = invocations s"
  using assms by (simp add: handle_function_call_parse_error assistant_message_def)

theorem parse_failure_leaves_assistant_message_witness:
  "messages (final (handle_function_call (example_env ''ShellGPT'' truncated)
      ''call_1'' ''get_weather'' oslo_head fresh_state))
   = [user_message, assistant_message ''call_1'' ''get_weather'' oslo_head]"
proof -
  have "json_loads (example_env ''ShellGPT'' truncated) oslo_head = None"
    by (simp add: example_env_def oslo_head_def oslo_tail_def)
  from parse_failure_leaves_assistant_message [OF this, of "''call_1''" "''get_weather''" fresh_state]
  show ?thesis by (simp add: fresh_state_def)
qed

text \<open>
  Claim C9. When the stream reaches \<^verbatim>\<open>finish_reason == "tool_calls"\<close> and the
  accumulated arguments do not parse, \<^verbatim>\<open>get_completion\<close> ends with the
  \<^verbatim>\<open>JSONDecodeError\<close> that carries the raw argument text: it has yielded the content
  fragments and a newline, the tool function was not invoked, and the single provider
  request is not repeated.
\<close>

theorem malformed_arguments_are_fatal:
  assumes lv: "live env caching model temperature top_p fs s"
    and gpc: "get_provider_completion env s = Inr ((cf, pk), s1)"
    and req: "req = request_of env model temperature top_p fs pk (messages s)"
    and prov: "provider env (length (requests s)) cf req = Inr (pre @ Chunk (c # cs) # post)"
    and pre: "list_all (quiet (use_litellm env)) pre"
    and ok: "list_all (delta_ok (use_litellm env)) (delta_calls (choice_delta c))"
    and fin: "finish_reason c = Some ''tool_calls''"
    and acc: "accumulated (stream_calls pre @ delta_calls (choice_delta c)) ([], [], [])
                = (i, n, a)"
    and bad: "json_loads env a = None"
  shows "get_completion (Suc fuel) env caching model temperature top_p fs s =
           (stream_fragments pre @ [newline], Raised (JSONDecodeError a),
            (sent s caching cf pk req)
              \<lparr>messages := messages s @ [assistant_message i n a]\<rparr>)
         \<and> invocations (final (get_completion (Suc fuel) env caching model temperature top_p
                                   fs s)) = invocations s
         \<and> new_requests s (final (get_completion (Suc fuel) env caching model temperature
                                      top_p fs s)) = [req]"
proof -
  have acc': "accumulated (delta_calls (choice_delta c))
                (accumulated (stream_calls pre) ([], [], [])) = (i, n, a)"
    using acc by (simp only: accumulated_append)
  have ne: "Raised (JSONDecodeError a) \<noteq> Raised KeyboardInterrupt" by simp
  have run: "get_completion (Suc fuel) env caching model temperature top_p fs s =
           (stream_fragments pre @ [newline], Raised (JSONDecodeError a),
            (sent s caching cf pk req)
              \<lparr>messages := messages s @ [assistant_message i n a]\<rparr>)"
    unfolding get_completion_Suc_prefix [OF lv gpc req prov pre]
      drain_tool_call [OF ok fin acc'] handle_function_call_parse_error [OF bad]
    by (simp add: then_gen_def prepend_def except_KeyboardInterrupt_def sent_def)
  show ?thesis
    unfolding run by (simp add: sent_def new_requests_def)
qed

theorem malformed_arguments_are_fatal_witness:
  "get_completion 1 (example_env ''ShellGPT'' truncated) True ''gpt-4o'' 0 1
     (Some [weather_schema]) fresh_state =
   ([''Let me check. '', [], newline], Raised (JSONDecodeError oslo_head),
    (sent fresh_state True (OpenAIClient example_kwargs) []
       (request_of (example_env ''ShellGPT'' truncated) ''gpt-4o'' 0 1 (Some [weather_schema]) []
          [user_message]))
      \<lparr>messages := [user_message, assistant_message ''call_1'' ''get_weather'' oslo_head]\<rparr>)"
proof -
  let ?env = "example_env ''ShellGPT'' truncated"
  let ?pre = "[content_chunk ''Let me check. '',
               call_chunk (Some ''call_1'') (Some ''get_weather'') oslo_head]"
  have lv: "live ?env True ''gpt-4o'' 0 1 (Some [weather_schema]) fresh_state"
    by (simp add: live_def example_env_def)
  have prov: "provider ?env (length (requests fresh_state)) (OpenAIClient example_kwargs)
      (request_of ?env ''gpt-4o'' 0 1 (Some [weather_schema]) [] (messages fresh_state))
      = Inr (?pre @ Chunk (finish_choice ''tool_calls'' # []) # [])"
    by (simp add: example_env_def truncated_def)
  have pre: "list_all (quiet (use_litellm ?env)) ?pre"
    by (simp add: example_env_def content_chunk_def call_chunk_def call_delta_def delta_calls_def)
  have ok: "list_all (delta_ok (use_litellm ?env))
              (delta_calls (choice_delta (finish_choice ''tool_calls'')))"
    by (simp add: finish_choice_def delta_calls_def)
  have fin: "finish_reason (finish_choice ''tool_calls'') = Some ''tool_calls''"
    by (simp add: finish_choice_def)
  have acc: "accumulated (stream_calls ?pre
               @ delta_calls (choice_delta (finish_choice ''tool_calls''))) ([], [], [])
             = (''call_1'', ''get_weather'', oslo_head)"
    by (simp add: stream_calls_def content_chunk_def call_chunk_def call_delta_def
        delta_calls_def finish_choice_def last_nonempty_def nonempty_def delta_name_def
        delta_fragment_def)
  have bad: "json_loads ?env oslo_head = None"
    by (simp add: example_env_def oslo_head_def oslo_tail_def)
  have frag: "stream_fragments ?pre = [''Let me check. '', []]"
    by (simp add: stream_fragments_def content_chunk_def call_chunk_def py_or_def)
  from malformed_arguments_are_fatal [OF lv get_provider_completion_example refl prov pre ok fin
      acc bad, of 0]
  show ?thesis by (simp add: frag fresh_state_def)
qed

text \<open>
  Claim C5. If iterating the response raises \<^verbatim>\<open>KeyboardInterrupt\<close> while the loop
  drains it, the response is closed and the generator returns normally, having yielded
  exactly the fragments of the chunks before the interrupt.
\<close>

theorem interrupt_closes_the_stream:
  assumes lv: "live env caching model temperature top_p fs s"
    and gpc: "get_provider_completion env s = Inr ((cf, pk), s1)"
    and req: "req = request_of env model temperature top_p fs pk (messages s)"
    and prov: "provider env (length (requests s)) cf req
                 = Inr (pre @ Fault KeyboardInterrupt # post)"
    and pre: "list_all (quiet (use_litellm env)) pre"
  shows "get_completion (Suc fuel) env caching model temperature top_p fs s =
           (stream_fragments pre, Returned,
            (sent s caching cf pk req)
              \<lparr>closed_responses := closed_responses s @ [length (requests s)]\<rparr>)"
  unfolding get_completion_Suc_prefix [OF lv gpc req prov pre]
  by (simp add: prepend_def except_KeyboardInterrupt_def sent_def)

theorem interrupt_closes_the_stream_witness:
  "get_completion 1 (example_env ''ShellGPT'' interrupted) True ''gpt-4o'' 0 1
     (Some [weather_schema]) fresh_state =
   ([''It rains '', ''in ''], Returned,
    (sent fresh_state True (OpenAIClient example_kwargs) []
       (request_of (example_env ''ShellGPT'' interrupted) ''gpt-4o'' 0 1
          (Some [weather_schema]) [] [user_message]))
      \<lparr>closed_responses := [0]\<rparr>)"
proof -
  let ?env = "example_env ''ShellGPT'' interrupted"
  let ?pre = "[content_chunk ''It rains '', content_chunk ''in '']"
  have lv: "live ?env True ''gpt-4o'' 0 1 (Some [weather_schema]) fresh_state"
    by (simp add: live_def example_env_def)
  have prov: "provider ?env (length (requests fresh_state)) (OpenAIClient example_kwargs)
      (request_of ?env ''gpt-4o'' 0 1 (Some [weather_schema]) [] (messages fresh_state))
      = Inr (?pre @ Fault KeyboardInterrupt # [content_chunk ''Oslo.''])"
    by (simp add: example_env_def interrupted_def)
  have pre: "list_all (quiet (use_litellm ?env)) ?pre"
    by (simp add: example_env_def content_chunk_def delta_calls_def)
  have frag: "stream_fragments ?pre = [''It rains '', ''in '']"
    by (simp add: stream_fragments_def content_chunk_def py_or_def)
  from interrupt_closes_the_stream [OF lv get_provider_completion_example refl prov pre, of 0]
  show ?thesis by (simp add: frag fresh_state_def)
qed

text \<open>
  Claim C1, amended. If the first response reaches a chunk with \<^verbatim>\<open>finish_reason ==
  "tool_calls"\<close>, the accumulated arguments parse to an argument map, the named function
  returns, and the second response has no such chunk, then \<^verbatim>\<open>get_completion\<close> invokes
  the function exactly once, appends the assistant message and exactly one tool-role
  message, makes two provider requests and returns normally. Its output is the content
  fragments of the first response before that chunk, a newline, the trace line of the call,
  the function's output block when \<^verbatim>\<open>SHOW_FUNCTIONS_OUTPUT\<close> is true, and the content
  fragments of the second response: it is not the content fragments alone.
\<close>

theorem tool_call_loop:
  assumes lv: "live env caching model temperature top_p fs s"
    and gpc: "get_provider_completion env s = Inr ((cf, pk), s1)"
    and req1: "req1 = request_of env model temperature top_p fs pk (messages s)"
    and prov1: "provider env (length (requests s)) cf req1 = Inr (pre @ Chunk (c # cs) # post)"
    and pre: "list_all (quiet (use_litellm env)) pre"
    and ok: "list_all (delta_ok (use_litellm env)) (delta_calls (choice_delta c))"
    and fin: "finish_reason c = Some ''tool_calls''"
    and acc: "accumulated (stream_calls pre @ delta_calls (choice_delta c)) ([], [], [])
                = (i, n, a)"
    and parse: "json_loads env a = Some v"
    and items: "dict_items env v = Some kvs"
    and fn: "get_function env n = Inr f"
    and res: "f kvs = Inr result"
    and req2: "req2 = request_of env model temperature top_p fs pk
                 (messages s @ [assistant_message i n a, tool_message result i])"
    and prov2: "provider env (Suc (length (requests s))) cf req2 = Inr segment"
    and seg: "list_all (quiet (use_litellm env)) segment"
  shows "get_completion (Suc (Suc fuel)) env caching model temperature top_p fs s =
           (stream_fragments pre @ [newline, trace_line n (joined_args env kvs)]
              @ (if cfg env ''SHOW_FUNCTIONS_OUTPUT'' = ''true'' then [output_block result] else [])
              @ stream_fragments segment,
            Returned,
            s\<lparr>calls := calls s @ [caching, False],
              completion := Some cf, completion_kwargs := pk,
              requests := requests s @ [(cf, req1), (cf, req2)],
              messages := messages s @ [assistant_message i n a, tool_message result i],
              invocations := invocations s @ [(n, kvs)]\<rparr>)"
proof -
  let ?s2 = "sent s caching cf pk req1"
  let ?s3 = "?s2\<lparr>messages := messages ?s2 @ [assistant_message i n a, tool_message result i],
                  invocations := invocations ?s2 @ [(n, kvs)]\<rparr>"
  let ?fs = "resolve_functions env fs"
  have acc': "accumulated (delta_calls (choice_delta c))
                (accumulated (stream_calls pre) ([], [], [])) = (i, n, a)"
    using acc by (simp only: accumulated_append)
  have lv3: "live env False model temperature top_p ?fs ?s3"
    by (simp add: live_def)
  have gpc3: "get_provider_completion env ?s3 = Inr ((cf, pk), ?s3)"
    using get_provider_completion_memo [of ?s3 cf env] by (simp add: sent_def)
  have req3: "req2 = request_of env model temperature top_p ?fs pk (messages ?s3)"
    by (simp add: req2 request_of_resolved sent_def)
  have prov3: "provider env (length (requests ?s3)) cf req2 = Inr segment"
    using prov2 by (simp add: sent_def)
  have inner: "get_completion (Suc fuel) env False model temperature top_p ?fs ?s3
                 = (stream_fragments segment, Returned, sent ?s3 False cf pk req2)"
    by (rule get_completion_Suc_quiet [OF lv3 gpc3 req3 prov3 seg])
  have hfc: "handle_function_call env i n a ?s2 =
               ([newline, trace_line n (joined_args env kvs)]
                  @ (if cfg env ''SHOW_FUNCTIONS_OUTPUT'' = ''true''
                     then [output_block result] else []),
                Returned, ?s3)"
    by (simp only: handle_function_call_ok [OF parse items fn res])
  have "get_completion (Suc (Suc fuel)) env caching model temperature top_p fs s =
          except_KeyboardInterrupt (length (requests s))
            (prepend (stream_fragments pre)
               (prepend ([newline, trace_line n (joined_args env kvs)]
                    @ (if cfg env ''SHOW_FUNCTIONS_OUTPUT'' = ''true''
                       then [output_block result] else []))
                  (stream_fragments segment, Returned, sent ?s3 False cf pk req2)))"
    by (simp only: get_completion_Suc_prefix [OF lv gpc req1 prov1 pre]
        drain_tool_call [OF ok fin acc'] hfc then_gen_Returned inner)
  then show ?thesis
    by (simp add: prepend_def except_KeyboardInterrupt_def sent_def
        del: get_completion.simps)
qed

theorem tool_call_loop_witness:
  "get_completion (Suc (Suc 0)) (example_env ''ShellGPT'' scripted) True ''gpt-4o'' 0 1
     (Some [weather_schema]) fresh_state =
   ([''Let me check. '', [], [], newline,
     trace_line ''get_weather''
       (joined_args (example_env ''ShellGPT'' scripted) [(''city'', ''Oslo'')]),
     ''It rains '', ''in Oslo.'', []],
    Returned,
    fresh_state\<lparr>calls := [True, False],
      completion := Some (OpenAIClient example_kwargs), completion_kwargs := [],
      requests :=
        [(OpenAIClient example_kwargs,
          request_of (example_env ''ShellGPT'' scripted) ''gpt-4o'' 0 1 (Some [weather_schema])
            [] [user_message]),
         (OpenAIClient example_kwargs,
          request_of (example_env ''ShellGPT'' scripted) ''gpt-4o'' 0 1 (Some [weather_schema])
            [] [user_message,
                assistant_message ''call_1'' ''get_weather'' (oslo_head @ oslo_tail),
                tool_message ''rain'' ''call_1''])],
      messages := [user_message,
                   assistant_message ''call_1'' ''get_weather'' (oslo_head @ oslo_tail),
                   tool_message ''rain'' ''call_1''],
      invocations := [(''get_weather'', [(''city'', ''Oslo'')])]\<rparr>)"
proof -
  let ?env = "example_env ''ShellGPT'' scripted"
  have lv: "live ?env True ''gpt-4o'' 0 1 (Some [weather_schema]) fresh_state"
    by (simp add: live_def example_env_def)
  have prov1: "provider ?env (length (requests fresh_state)) (OpenAIClient example_kwargs)
      (request_of ?env ''gpt-4o'' 0 1 (Some [weather_schema]) [] (messages fresh_state))
      = Inr (first_segment @ Chunk (finish_choice ''tool_calls'' # []) # [])"
    by (simp add: example_env_def scripted_def fresh_state_def)
  have pre: "list_all (quiet (use_litellm ?env)) first_segment"
    by (simp add: example_env_def first_segment_def content_chunk_def call_chunk_def
        call_delta_def delta_calls_def)
  have ok: "list_all (delta_ok (use_litellm ?env))
              (delta_calls (choice_delta (finish_choice ''tool_calls'')))"
    by (simp add: finish_choice_def delta_calls_def)
  have fin: "finish_reason (finish_choice ''tool_calls'') = Some ''tool_calls''"
    by (simp add: finish_choice_def)
  have acc: "accumulated (stream_calls first_segment
               @ delta_calls (choice_delta (finish_choice ''tool_calls''))) ([], [], [])
             = (''call_1'', ''get_weather'', oslo_head @ oslo_tail)"
    by (simp add: stream_calls_def first_segment_def content_chunk_def call_chunk_def
        call_delta_def delta_calls_def finish_choice_def last_nonempty_def nonempty_def
        delta_name_def delta_fragment_def)
  have parse: "json_loads ?env (oslo_head @ oslo_tail) = Some ''dict''"
    by (simp add: example_env_def)
  have items: "dict_items ?env ''dict'' = Some [(''city'', ''Oslo'')]"
    by (simp add: example_env_def)
  have fn: "get_function ?env ''get_weather'' = Inr (\<lambda>kvs. Inr ''rain'')"
    by (simp add: example_env_def)
  have prov2: "provider ?env (Suc (length (requests fresh_state))) (OpenAIClient example_kwargs)
      (request_of ?env ''gpt-4o'' 0 1 (Some [weather_schema]) []
         (messages fresh_state
            @ [assistant_message ''call_1'' ''get_weather'' (oslo_head @ oslo_tail),
               tool_message ''rain'' ''call_1'']))
      = Inr second_segment"
    by (simp add: example_env_def scripted_def fresh_state_def)
  have seg: "list_all (quiet (use_litellm ?env)) second_segment"
    by (simp add: example_env_def second_segment_def content_chunk_def finish_choice_def
        delta_calls_def)
  have frag1: "stream_fragments first_segment = [''Let me check. '', [], []]"
    by (simp add: stream_fragments_def first_segment_def content_chunk_def call_chunk_def
        py_or_def)
  have frag2: "stream_fragments second_segment = [''It rains '', ''in Oslo.'', []]"
    by (simp add: stream_fragments_def second_segment_def content_chunk_def finish_choice_def
        py_or_def)
  have quiet_cfg: "cfg ?env ''SHOW_FUNCTIONS_OUTPUT'' \<noteq> ''true''"
    by (simp add: example_env_def)
  from tool_call_loop [OF lv get_provider_completion_example refl prov1 pre ok fin acc parse
      items fn refl refl prov2 seg, of 0]
  show ?thesis
    by (simp add: frag1 frag2 quiet_cfg fresh_state_def del: get_completion.simps)
qed

text \<open>
  The claim as it was stated fails on the scripted provider: the text yielded contains the
  trace line.
\<close>

theorem tool_call_output_counterexample:
  "concat (fst (get_completion (Suc (Suc 0)) (example_env ''ShellGPT'' scripted) False
                  ''gpt-4o'' 0 1 (Some [weather_schema]) fresh_state))
   \<noteq> concat (stream_fragments (first_segment @ [Chunk [finish_choice ''tool_calls'']])
               @ stream_fragments second_segment)"
  unfolding scripted_run
  by (simp add: stream_fragments_def first_segment_def second_segment_def content_chunk_def
      call_chunk_def finish_choice_def py_or_def newline_def)

text \<open>
  Claim C4, amended. While the stream is drained, the tool-call deltas of all chunks up to
  and including the one that finishes with \<^verbatim>\<open>tool_calls\<close> are accumulated into one
  tool call, whatever ids they carry: its id and its name are the last non-empty ones seen,
  and its arguments are the concatenation of all the arguments fragments in arrival order.
  That tool call is the one handed to \<^verbatim>\<open>handle_function_call\<close>.
\<close>

theorem tool_call_deltas_accumulated:
  assumes pre: "list_all (quiet (use_litellm env)) pre"
    and ok: "list_all (delta_ok (use_litellm env)) (delta_calls (choice_delta c))"
    and fin: "finish_reason c = Some ''tool_calls''"
    and tcs: "tcs = stream_calls (pre @ [Chunk (c # cs)])"
  shows "accumulate (use_litellm env) tcs ([], [], []) =
           Inr (last_nonempty (map tcd_id tcs) [], last_nonempty (map delta_name tcs) [],
                concat (map delta_fragment tcs))
         \<and> drain env recurse (pre @ Chunk (c # cs) # post) ([], [], []) s =
             prepend (stream_fragments pre)
               (then_gen
                  (handle_function_call env (last_nonempty (map tcd_id tcs) [])
                     (last_nonempty (map delta_name tcs) []) (concat (map delta_fragment tcs)) s)
                  recurse)"
proof -
  have split: "tcs = stream_calls pre @ delta_calls (choice_delta c)"
    by (simp add: tcs stream_calls_def)
  have all: "list_all (delta_ok (use_litellm env)) tcs"
    using quiet_calls_ok [OF pre] ok by (simp add: split)
  have acc: "accumulated (delta_calls (choice_delta c))
               (accumulated (stream_calls pre) ([], [], []))
             = (last_nonempty (map tcd_id tcs) [], last_nonempty (map delta_name tcs) [],
                concat (map delta_fragment tcs))"
    by (simp only: accumulated_append [symmetric] split [symmetric]) simp
  have "accumulate (use_litellm env) tcs ([], [], []) =
          Inr (last_nonempty (map tcd_id tcs) [], last_nonempty (map delta_name tcs) [],
               concat (map delta_fragment tcs))"
    using accumulate_ok [OF all, of "[]" "[]" "[]"] by simp
  moreover have "drain env recurse (pre @ Chunk (c # cs) # post) ([], [], []) s =
             prepend (stream_fragments pre)
               (then_gen
                  (handle_function_call env (last_nonempty (map tcd_id tcs) [])
                     (last_nonempty (map delta_name tcs) []) (concat (map delta_fragment tcs)) s)
                  recurse)"
    by (simp only: drain_quiet_prefix [OF pre] drain_tool_call [OF ok fin acc] prepend_def)
  ultimately show ?thesis by simp
qed

theorem tool_call_deltas_accumulated_witness:
  "accumulate False
     (stream_calls (first_segment @ [Chunk [finish_choice ''tool_calls'']])) ([], [], [])
   = Inr (''call_1'', ''get_weather'', oslo_head @ oslo_tail)"
proof -
  let ?env = "example_env ''ShellGPT'' scripted"
  have l: "use_litellm ?env = False" by (simp add: example_env_def)
  have pre: "list_all (quiet (use_litellm ?env)) first_segment"
    by (simp add: example_env_def first_segment_def content_chunk_def call_chunk_def
        call_delta_def delta_calls_def)
  have ok: "list_all (delta_ok (use_litellm ?env))
              (delta_calls (choice_delta (finish_choice ''tool_calls'')))"
    by (simp add: finish_choice_def delta_calls_def)
  have fin: "finish_reason (finish_choice ''tool_calls'') = Some ''tool_calls''"
    by (simp add: finish_choice_def)
  have tcs: "stream_calls (first_segment @ [Chunk [finish_choice ''tool_calls'']])
             = [call_delta (Some ''call_1'') (Some ''get_weather'') oslo_head,
                call_delta None None oslo_tail]"
    by (simp add: stream_calls_def first_segment_def content_chunk_def call_chunk_def
        delta_calls_def finish_choice_def)
  from tool_call_deltas_accumulated [OF pre ok fin refl, of "[]"]
  show ?thesis
    by (simp add: l tcs call_delta_def last_nonempty_def nonempty_def delta_name_def
        delta_fragment_def del: accumulate.simps)
qed

text \<open>
  The accumulation is not per tool-call id: with the deltas of two calls in one stream, the
  arguments kept for the second call contain the fragments of the first.
\<close>

theorem accumulation_per_id_counterexample:
  "accumulate False two_calls ([], [], [])
     = Inr (''call_2'', ''get_time'', oslo_head @ oslo_tail @ ''{}'')
   \<and> arguments_of_call ''call_2'' [] two_calls = ''{}''
   \<and> accumulate False two_calls ([], [], [])
       \<noteq> Inr (''call_2'', ''get_time'', arguments_of_call ''call_2'' [] two_calls)"
  by (simp add: two_calls_def call_delta_def py_or_def delta_fragment_def Let_def
      oslo_head_def oslo_tail_def)

text \<open>
  Claim C6. Every provider request that \<^verbatim>\<open>get_completion\<close> makes, at any depth of the
  recursion, carries tool fields exactly when the resolved tool schemas are a non-empty
  list: then \<^verbatim>\<open>tool_choice\<close> is \<^verbatim>\<open>"auto"\<close>, \<^verbatim>\<open>tools\<close> are the schemas and
  \<^verbatim>\<open>parallel_tool_calls\<close> is false; otherwise none of the three fields is sent. The
  schemas that \<^verbatim>\<open>main\<close> hands over are absent when the registry's list is empty.
\<close>

theorem tool_fields_iff_schemas:
  assumes "globals_ok s"
  shows "list_all (\<lambda>r. tool_fields (req_kwargs r) (resolve_functions env fs))
           (new_requests s (final (get_completion n env caching model temperature top_p fs s)))
         \<and> truthy (function_schemas env use_functions schemas)
             = (use_functions \<and> role_supports_functions env \<and> schemas \<noteq> [])"
  using new_requests_tool_fields [OF assms] by (simp add: function_schemas_truthy)

theorem tool_fields_iff_schemas_witness:
  "new_requests fresh_state
     (final (get_completion (Suc 0) (example_env ''ShellGPT'' interrupted) True ''gpt-4o'' 0 1
               (Some [weather_schema]) fresh_state))
   = [request_of (example_env ''ShellGPT'' interrupted) ''gpt-4o'' 0 1 (Some [weather_schema])
        [] [user_message]]
   \<and> tool_fields
       (req_kwargs (request_of (example_env ''ShellGPT'' interrupted) ''gpt-4o'' 0 1
                      (Some [weather_schema]) [] [user_message]))
       (Some [weather_schema])"
proof -
  let ?env = "example_env ''ShellGPT'' interrupted"
  have run: "new_requests fresh_state
     (final (get_completion (Suc 0) ?env True ''gpt-4o'' 0 1 (Some [weather_schema]) fresh_state))
   = [request_of ?env ''gpt-4o'' 0 1 (Some [weather_schema]) [] [user_message]]"
    by (simp add: new_requests_def cache_def get_completion_body_def
        get_provider_completion_def Let_def example_env_def interrupted_def fresh_state_def
        request_of_def content_chunk_def delta_calls_def except_KeyboardInterrupt_def
        yield_then_def)
  have res: "resolve_functions ?env (Some [weather_schema]) = Some [weather_schema]"
    by (simp add: resolve_functions_def example_env_def)
  from tool_fields_iff_schemas [OF globals_ok_fresh, of ?env "Some [weather_schema]" "Suc 0" True
      "''gpt-4o''" 0 1]
  show ?thesis by (simp add: run res del: get_completion.simps)
qed

text \<open>
  Claim C2. For the roles \<^verbatim>\<open>SHELL\<close>, \<^verbatim>\<open>CODE\<close> and \<^verbatim>\<open>DESCRIBE_SHELL\<close>, no
  provider request carries \<^verbatim>\<open>tools\<close> (nor the other tool fields), whatever functions
  the caller supplies, and \<^verbatim>\<open>main\<close> itself hands over no schemas.
\<close>

theorem reserved_roles_never_send_tools:
  assumes "globals_ok s"
    and "role_name env \<in> {SHELL env, CODE env, DESCRIBE_SHELL env}"
  shows "list_all (\<lambda>r. tool_free (req_kwargs r))
           (new_requests s (final (get_completion n env caching model temperature top_p fs s)))
         \<and> function_schemas env use_functions schemas = None"
proof -
  have "resolve_functions env fs = None"
    using assms(2) by (auto simp: resolve_functions_def Let_def)
  with new_requests_tool_fields [OF assms(1), of env fs n caching model temperature top_p]
  have "list_all (\<lambda>r. tool_free (req_kwargs r))
           (new_requests s (final (get_completion n env caching model temperature top_p fs s)))"
    by (simp add: tool_fields_def truthy_def)
  moreover have "function_schemas env use_functions schemas = None"
    using assms(2) by (auto simp: function_schemas_def role_supports_functions_def)
  ultimately show ?thesis by simp
qed

theorem reserved_roles_never_send_tools_witness:
  "new_requests fresh_state
     (final (get_completion (Suc 0) (example_env ''Shell Command Generator'' interrupted) True
               ''gpt-4o'' 0 1 (Some [weather_schema]) fresh_state))
   = [request_of (example_env ''Shell Command Generator'' interrupted) ''gpt-4o'' 0 1
        (Some [weather_schema]) [] [user_message]]
   \<and> tool_free
       (req_kwargs (request_of (example_env ''Shell Command Generator'' interrupted) ''gpt-4o''
                      0 1 (Some [weather_schema]) [] [user_message]))
   \<and> function_schemas (example_env ''Shell Command Generator'' interrupted) True
       [weather_schema] = None"
proof -
  let ?env = "example_env ''Shell Command Generator'' interrupted"
  have run: "new_requests fresh_state
     (final (get_completion (Suc 0) ?env True ''gpt-4o'' 0 1 (Some [weather_schema]) fresh_state))
   = [request_of ?env ''gpt-4o'' 0 1 (Some [weather_schema]) [] [user_message]]"
    by (simp add: new_requests_def cache_def get_completion_body_def
        get_provider_completion_def Let_def example_env_def interrupted_def fresh_state_def
        request_of_def content_chunk_def delta_calls_def except_KeyboardInterrupt_def
        yield_then_def)
  have role: "role_name ?env \<in> {SHELL ?env, CODE ?env, DESCRIBE_SHELL ?env}"
    by (simp add: example_env_def)
  from reserved_roles_never_send_tools [OF globals_ok_fresh role, of "Suc 0" True "''gpt-4o''"
      0 1 "Some [weather_schema]" True "[weather_schema]"]
  show ?thesis by (simp add: run del: get_completion.simps)
qed

text \<open>
  Claim C8. In a process that has memoized nothing, a call of
  \<^verbatim>\<open>get_provider_completion\<close> whose timeout parses and whose import or client
  construction does not raise returns the capability and keyword arguments built from the
  configuration and memoizes them. Every later call, in whatever state and whatever the
  configuration then says, returns that same capability and equal keyword arguments and
  leaves the state as it is, so nothing is resolved a second time. A call that returns
  changes nothing but the two globals.
\<close>

theorem provider_resolved_once:
  fixes env :: "'v env"
  assumes fresh: "completion s = None"
    and timeout: "py_int env (cfg env ''REQUEST_TIMEOUT'') = Some timeout"
    and ok: "constructible env timeout"
  shows "get_provider_completion env s =
           Inr (resolved env timeout,
                s\<lparr>completion := Some (fst (resolved env timeout)),
                  completion_kwargs := snd (resolved env timeout)\<rparr>)
         \<and> (\<forall>(env' :: 'v env) s2.
               completion s2 = Some (fst (resolved env timeout))
               \<and> completion_kwargs s2 = snd (resolved env timeout)
               \<longrightarrow> get_provider_completion env' s2 = Inr (resolved env timeout, s2))
         \<and> (\<forall>s0 c kw s1.
               get_provider_completion env s0 = Inr ((c, kw), s1)
               \<longrightarrow> s1 = s0\<lparr>completion := Some c, completion_kwargs := kw\<rparr>)"
proof (intro conjI allI impI)
  show "get_provider_completion env s =
           Inr (resolved env timeout,
                s\<lparr>completion := Some (fst (resolved env timeout)),
                  completion_kwargs := snd (resolved env timeout)\<rparr>)"
    using fresh timeout ok by (rule get_provider_completion_first)
next
  fix env' :: "'v env" and s2 :: "'v state"
  assume "completion s2 = Some (fst (resolved env timeout))
          \<and> completion_kwargs s2 = snd (resolved env timeout)"
  then show "get_provider_completion env' s2 = Inr (resolved env timeout, s2)"
    using get_provider_completion_memo [of s2 "fst (resolved env timeout)" env'] by simp
next
  fix s0 c kw s1
  assume "get_provider_completion env s0 = Inr ((c, kw), s1)"
  then show "s1 = s0\<lparr>completion := Some c, completion_kwargs := kw\<rparr>"
    by (rule get_provider_completion_Inr)
qed

theorem provider_resolved_once_witness:
  "get_provider_completion (example_env ''ShellGPT'' scripted) fresh_state =
     Inr ((OpenAIClient example_kwargs, []),
          fresh_state\<lparr>completion := Some (OpenAIClient example_kwargs),
            completion_kwargs := []\<rparr>)
   \<and> get_provider_completion changed_env
       (fresh_state\<lparr>completion := Some (OpenAIClient example_kwargs), completion_kwargs := [],
          messages := []\<rparr>)
     = Inr ((OpenAIClient example_kwargs, []),
            fresh_state\<lparr>completion := Some (OpenAIClient example_kwargs),
              completion_kwargs := [], messages := []\<rparr>)"
proof -
  let ?env = "example_env ''ShellGPT'' scripted"
  have fresh: "completion fresh_state = None" by (simp add: fresh_state_def)
  have timeout: "py_int ?env (cfg ?env ''REQUEST_TIMEOUT'') = Some 60"
    by (simp add: example_env_def)
  have ok: "constructible ?env 60"
    by (simp add: constructible_def example_env_def)
  have r: "resolved ?env 60 = (OpenAIClient example_kwargs, [])"
    by (simp add: resolved_def example_env_def example_kwargs_def)
  note once = provider_resolved_once [OF fresh timeout ok, unfolded r]
  have first: "get_provider_completion ?env fresh_state =
     Inr ((OpenAIClient example_kwargs, []),
          fresh_state\<lparr>completion := Some (OpenAIClient example_kwargs),
            completion_kwargs := []\<rparr>)"
    using once [THEN conjunct1] by simp
  have later: "get_provider_completion env' s2 = Inr ((OpenAIClient example_kwargs, []), s2)"
    if "completion s2 = Some (OpenAIClient example_kwargs)" and "completion_kwargs s2 = []"
    for env' :: "string env" and s2 :: "string state"
    using once [THEN conjunct2, THEN conjunct1] that by simp
  show ?thesis
    by (rule conjI, rule first, rule later) simp_all
qed

text \<open>
  Claim C7. After a tool call has been executed, \<^verbatim>\<open>get_completion\<close> recurses into a new
  streaming call with caching disabled: whatever the \<^verbatim>\<open>caching\<close> argument of the outer
  call, what follows the trace of the tool call is the run of \<^verbatim>\<open>get_completion\<close> with
  \<^verbatim>\<open>caching=False\<close> on the message list extended by the assistant and tool messages. The
  recorded \<^verbatim>\<open>caching\<close> arguments are the outer one, then \<open>False\<close> for that call and
  for every deeper one, and the second provider request carries the extended message list.
\<close>

theorem recursive_call_never_cached:
  assumes lv: "live env caching model temperature top_p fs s"
    and gpc: "get_provider_completion env s = Inr ((cf, pk), s1)"
    and req1: "req1 = request_of env model temperature top_p fs pk (messages s)"
    and prov1: "provider env (length (requests s)) cf req1 = Inr (pre @ Chunk (c # cs) # post)"
    and pre: "list_all (quiet (use_litellm env)) pre"
    and ok: "list_all (delta_ok (use_litellm env)) (delta_calls (choice_delta c))"
    and fin: "finish_reason c = Some ''tool_calls''"
    and acc: "accumulated (stream_calls pre @ delta_calls (choice_delta c)) ([], [], [])
                = (i, n, a)"
    and parse: "json_loads env a = Some v"
    and items: "dict_items env v = Some kvs"
    and fn: "get_function env n = Inr f"
    and res: "f kvs = Inr result"
    and extended: "extended = (sent s caching cf pk req1)
                     \<lparr>messages := messages s @ [assistant_message i n a, tool_message result i],
                       invocations := invocations s @ [(n, kvs)]\<rparr>"
  shows "get_completion (Suc fuel) env caching model temperature top_p fs s =
           except_KeyboardInterrupt (length (requests s))
             (prepend
                (stream_fragments pre @ [newline, trace_line n (joined_args env kvs)]
                   @ (if cfg env ''SHOW_FUNCTIONS_OUTPUT'' = ''true''
                      then [output_block result] else []))
                (get_completion fuel env False model temperature top_p
                   (resolve_functions env fs) extended))
         \<and> (\<exists>k. calls (final (get_completion (Suc (Suc fuel)) env caching model temperature
                                  top_p fs s))
                  = calls s @ caching # False # replicate k False)
         \<and> (\<exists>rest. requests (final (get_completion (Suc (Suc fuel)) env caching model
                                        temperature top_p fs s))
                  = requests s @ (cf, req1)
                      # (cf, request_of env model temperature top_p fs pk
                              (messages s
                                 @ [assistant_message i n a, tool_message result i]))
                      # rest)"
proof -
  let ?s2 = "sent s caching cf pk req1"
  let ?fs = "resolve_functions env fs"
  let ?out = "[newline, trace_line n (joined_args env kvs)]
                @ (if cfg env ''SHOW_FUNCTIONS_OUTPUT'' = ''true''
                   then [output_block result] else [])"
  have acc': "accumulated (delta_calls (choice_delta c))
                (accumulated (stream_calls pre) ([], [], [])) = (i, n, a)"
    using acc by (simp only: accumulated_append)
  have hfc: "handle_function_call env i n a ?s2 = (?out, Returned, extended)"
    by (simp add: handle_function_call_ok [OF parse items fn res] extended sent_def)
  have step: "get_completion (Suc m) env caching model temperature top_p fs s =
           except_KeyboardInterrupt (length (requests s))
             (prepend (stream_fragments pre @ ?out)
                (get_completion m env False model temperature top_p ?fs extended))" for m
    by (simp only: get_completion_Suc_prefix [OF lv gpc req1 prov1 pre]
        drain_tool_call [OF ok fin acc'] hfc then_gen_Returned prepend_prepend)
  have lv3: "live env False model temperature top_p ?fs extended"
    by (simp add: live_def)
  have gpc3: "get_provider_completion env extended = Inr ((cf, pk), extended)"
    using get_provider_completion_memo [of extended cf env] by (simp add: extended sent_def)
  obtain k where k: "calls (final (get_completion (Suc fuel) env False model temperature top_p
                                     ?fs extended))
                     = calls extended @ False # replicate k False"
    using get_completion_Suc_calls [of fuel env False model temperature top_p ?fs extended]
    by blast
  obtain rest where rest: "requests (final (get_completion (Suc fuel) env False model
                                              temperature top_p ?fs extended))
        = requests extended
            @ (cf, request_of env model temperature top_p ?fs pk (messages extended)) # rest"
    using get_completion_Suc_first_request [OF lv3 gpc3, of fuel] by blast
  have "calls (final (get_completion (Suc (Suc fuel)) env caching model temperature top_p fs s))
          = calls s @ caching # False # replicate k False"
    by (simp only: step calls_final_except final_prepend k) (simp add: extended sent_def)
  moreover
  have "requests (final (get_completion (Suc (Suc fuel)) env caching model temperature top_p
                           fs s))
          = requests s @ (cf, req1)
              # (cf, request_of env model temperature top_p fs pk
                      (messages s @ [assistant_message i n a, tool_message result i]))
              # rest"
    by (simp only: step requests_final_except final_prepend rest request_of_resolved)
      (simp add: extended sent_def)
  ultimately show ?thesis using step [of fuel] by blast
qed

theorem recursive_call_never_cached_witness:
  "(\<exists>k. calls (final (get_completion (Suc (Suc 0)) (example_env ''ShellGPT'' scripted) True
                           ''gpt-4o'' 0 1 (Some [weather_schema]) fresh_state))
         = True # False # replicate k False)
   \<and> (\<exists>rest. requests (final (get_completion (Suc (Suc 0)) (example_env ''ShellGPT'' scripted)
                                  True ''gpt-4o'' 0 1 (Some [weather_schema]) fresh_state))
            = (OpenAIClient example_kwargs,
               request_of (example_env ''ShellGPT'' scripted) ''gpt-4o'' 0 1
                 (Some [weather_schema]) [] [user_message])
              # (OpenAIClient example_kwargs,
                 request_of (example_env ''ShellGPT'' scripted) ''gpt-4o'' 0 1
                   (Some [weather_schema]) []
                   [user_message,
                    assistant_message ''call_1'' ''get_weather'' (oslo_head @ oslo_tail),
                    tool_message ''rain'' ''call_1''])
              # rest)"
proof -
  let ?env = "example_env ''ShellGPT'' scripted"
  have lv: "live ?env True ''gpt-4o'' 0 1 (Some [weather_schema]) fresh_state"
    by (simp add: live_def example_env_def)
  have prov1: "provider ?env (length (requests fresh_state)) (OpenAIClient example_kwargs)
      (request_of ?env ''gpt-4o'' 0 1 (Some [weather_schema]) [] (messages fresh_state))
      = Inr (first_segment @ Chunk (finish_choice ''tool_calls'' # []) # [])"
    by (simp add: example_env_def scripted_def fresh_state_def)
  have pre: "list_all (quiet (use_litellm ?env)) first_segment"
    by (simp add: example_env_def first_segment_def content_chunk_def call_chunk_def
        call_delta_def delta_calls_def)
  have ok: "list_all (delta_ok (use_litellm ?env))
              (delta_calls (choice_delta (finish_choice ''tool_calls'')))"
    by (simp add: finish_choice_def delta_calls_def)
  have fin: "finish_reason (finish_choice ''tool_calls'') = Some ''tool_calls''"
    by (simp add: finish_choice_def)
  have acc: "accumulated (stream_calls first_segment
               @ delta_calls (choice_delta (finish_choice ''tool_calls''))) ([], [], [])
             = (''call_1'', ''get_weather'', oslo_head @ oslo_tail)"
    by (simp add: stream_calls_def first_segment_def content_chunk_def call_chunk_def
        call_delta_def delta_calls_def finish_choice_def last_nonempty_def nonempty_def
        delta_name_def delta_fragment_def)
  have parse: "json_loads ?env (oslo_head @ oslo_tail) = Some ''dict''"
    by (simp add: example_env_def)
  have items: "dict_items ?env ''dict'' = Some [(''city'', ''Oslo'')]"
    by (simp add: example_env_def)
  have fn: "get_function ?env ''get_weather'' = Inr (\<lambda>kvs. Inr ''rain'')"
    by (simp add: example_env_def)
  note run = recursive_call_never_cached [OF lv get_provider_completion_example refl prov1 pre
      ok fin acc parse items fn refl refl, of 0]
  have "\<exists>k. calls (final (get_completion (Suc (Suc 0)) ?env True ''gpt-4o'' 0 1
                           (Some [weather_schema]) fresh_state))
         = True # False # replicate k False"
    using run [THEN conjunct2, THEN conjunct1] by (simp add: fresh_state_def del: get_completion.simps)
  moreover have "\<exists>rest. requests (final (get_completion (Suc (Suc 0)) ?env True ''gpt-4o'' 0 1
                                  (Some [weather_schema]) fresh_state))
            = (OpenAIClient example_kwargs,
               request_of ?env ''gpt-4o'' 0 1 (Some [weather_schema]) [] [user_message])
              # (OpenAIClient example_kwargs,
                 request_of ?env ''gpt-4o'' 0 1 (Some [weather_schema]) []
                   [user_message,
                    assistant_message ''call_1'' ''get_weather'' (oslo_head @ oslo_tail),
                    tool_message ''rain'' ''call_1''])
              # rest"
    using run [THEN conjunct2, THEN conjunct2] by (simp add: fresh_state_def del: get_completion.simps)
  ultimately show ?thesis by (rule conjI)
qed

end
